theory Spec2Isabelle
  imports Complex_Main "HOL-Library.Sublist"
begin

section \<open>The text-analytics dashboard (app.py)\<close>

text \<open>
  The dashboard is one Streamlit script. Its right-hand column reads three inputs
  (the text, the endpoint and the API key), and, when the button is pressed, builds an
  SDK client and runs five remote operations on the one-document batch
  \<^verbatim>\<open>[user_text]\<close>, showing each response with Streamlit widgets. The model is the
  block \<^verbatim>\<open>with col2:\<close>; the sidebar and the left-hand column only supply its inputs.

  Conventions of the model:
  \<^item> a character outside ASCII is written as its code point, \<^verbatim>\<open>U+1F60A\<close>;
  \<^item> a Python float is a \<^typ>\<open>real\<close>; the result of formatting a number inside an
    f-string is kept symbolic (the pieces \<open>Pct\<close> for \<^verbatim>\<open>:.0%\<close> and \<open>Dec\<close> for an
    integer), the literal parts of the f-string are \<open>Lit\<close>;
  \<^item> an exception is a value of type \<open>exn\<close>; only exceptions derived from Python's
    \<^verbatim>\<open>Exception\<close> are modelled, so both handlers of the script catch every one of them;
  \<^item> the widgets shown and the remote operations issued are appended, in program order,
    to the two lists of a \<open>world\<close>.
\<close>

subsection \<open>Exceptions\<close>

datatype exn = IndexError | OtherError string

fun str_exn :: "exn \<Rightarrow> string" where
  "str_exn IndexError = ''list index out of range''"
| "str_exn (OtherError msg) = msg"

subsection \<open>Responses of the SDK\<close>

text \<open>
  Modelled from the spec: the SDK's result classes are not part of the repository; their
  shapes are the response shapes of the remote service boundary, with the attribute
  names the script reads. Where two classes use one attribute name (\<^verbatim>\<open>text\<close>,
  \<^verbatim>\<open>category\<close>, \<^verbatim>\<open>confidence_score\<close>, \<^verbatim>\<open>entities\<close>), the field carries
  the prefix \<open>entity_\<close> or \<open>pii_\<close>.
\<close>

record SentimentConfidenceScores =
  positive :: real
  negative :: real
  neutral :: real

record AnalyzeSentimentResult =
  sentiment :: string
  confidence_scores :: SentimentConfidenceScores

record ExtractKeyPhrasesResult =
  key_phrases :: "string list"

record DetectedLanguage =
  name :: string
  iso6391_name :: string
  confidence_score :: real

record DetectLanguageResult =
  primary_language :: DetectedLanguage

record CategorizedEntity =
  entity_text :: string
  entity_category :: string
  entity_confidence_score :: real

record RecognizeEntitiesResult =
  entities :: "CategorizedEntity list"

record PiiEntity =
  pii_category :: string
  pii_text :: string

text \<open>
  An element of the list an operation returns is either a result object or an object
  that is no result (the SDK puts a per-document error object there): it has none of the
  attributes the script reads, so the first attribute read raises the exception it carries.
\<close>

datatype 'r item = Result 'r | NonResult exn

text \<open>
  The PII result is read inside a handler of its own, field by field, after the first
  widget of the step is on the page. Its fields are therefore modelled one by one: an
  element of \<^verbatim>\<open>entities\<close> is a PII entity or an object whose attributes cannot be read, and
  reading \<^verbatim>\<open>redacted_text\<close> gives the text or raises.
\<close>

record RecognizePiiEntitiesResult =
  pii_entities :: "PiiEntity item list"
  redacted_text :: "exn + string"

datatype call =
    AnalyzeSentiment "string list"
  | ExtractKeyPhrases "string list"
  | DetectLanguage "string list"
  | RecognizeEntities "string list"
  | RecognizePiiEntities "string list"

record TextAnalyticsClient =
  analyze_sentiment :: "string list \<Rightarrow> exn + AnalyzeSentimentResult item list"
  extract_key_phrases :: "string list \<Rightarrow> exn + ExtractKeyPhrasesResult item list"
  detect_language :: "string list \<Rightarrow> exn + DetectLanguageResult item list"
  recognize_entities :: "string list \<Rightarrow> exn + RecognizeEntitiesResult item list"
  recognize_pii_entities :: "string list \<Rightarrow> exn + RecognizePiiEntitiesResult item list"

text \<open>The constructor call \<^verbatim>\<open>TextAnalyticsClient(endpoint=..., credential=AzureKeyCredential(api_key))\<close>.\<close>

type_synonym sdk = "string \<Rightarrow> string \<Rightarrow> exn + TextAnalyticsClient"

subsection \<open>Widgets and the world\<close>

datatype piece = Lit string | Pct real | Dec nat

type_synonym fstring = "piece list"

datatype widget =
    Header string
  | Button string
  | Spinner string
  | Subheader string
  | Markdown fstring bool
  | Columns nat
  | Metric string fstring
  | Info fstring
  | Warning fstring
  | Success string
  | Error fstring
  | Dataframe "(string \<times> fstring) list list"
  | Expander string
  | Code string

record world =
  display :: "widget list"
  calls :: "call list"

definition st :: "widget \<Rightarrow> world \<Rightarrow> world" where
  "st x w = w\<lparr>display := display w @ [x]\<rparr>"

definition remote :: "call \<Rightarrow> world \<Rightarrow> world" where
  "remote c w = w\<lparr>calls := calls w @ [c]\<rparr>"

record inputs =
  endpoint :: string
  api_key :: string
  user_text :: string
  analyze_clicked :: bool

subsection \<open>Python helpers\<close>

text \<open>\<^verbatim>\<open>str.upper\<close>, on ASCII letters; other bytes are left as they are.\<close>

definition upper_char :: "char \<Rightarrow> char" where
  "upper_char c =
     (case map_of (zip ''abcdefghijklmnopqrstuvwxyz'' ''ABCDEFGHIJKLMNOPQRSTUVWXYZ'') c of
        Some u \<Rightarrow> u
      | None \<Rightarrow> c)"

definition upper :: "string \<Rightarrow> string" where
  "upper s = map upper_char s"

text \<open>\<^verbatim>\<open>d.get(k, default)\<close> on a dictionary given by its items.\<close>

definition dict_get :: "('k \<times> 'v) list \<Rightarrow> 'k \<Rightarrow> 'v \<Rightarrow> 'v" where
  "dict_get d k dflt = (case map_of d k of Some v \<Rightarrow> v | None \<Rightarrow> dflt)"

text \<open>\<^verbatim>\<open>sep.join(xs)\<close>.\<close>

fun str_join :: "string \<Rightarrow> string list \<Rightarrow> string" where
  "str_join sep [] = []"
| "str_join sep [x] = x"
| "str_join sep (x # y # ys) = x @ sep @ str_join sep (y # ys)"

text \<open>
  \<^verbatim>\<open>op(documents)[0]\<close> followed by the first attribute read of the element: the call can
  raise, \<^verbatim>\<open>[0]\<close> raises IndexError on an empty list, and the attribute read raises on an
  element that is no result. No widget is shown between the three in any of the five steps.
\<close>

definition first_result :: "exn + 'r item list \<Rightarrow> exn + 'r" where
  "first_result returned =
     (case returned of
        Inl e \<Rightarrow> Inl e
      | Inr docs \<Rightarrow>
          (case docs of
             [] \<Rightarrow> Inl IndexError
           | d # _ \<Rightarrow> (case d of Result r \<Rightarrow> Inr r | NonResult e \<Rightarrow> Inl e)))"

subsection \<open>The five steps\<close>

text \<open>
  Each of the steps 1 to 4 returns \<open>None\<close> when it ran to its end and \<open>Some e\<close> when the
  exception \<open>e\<close> left it, together with the world as it is at that moment: what was shown
  before the exception stays on the page.
\<close>

definition sentiment_emoji :: "(string \<times> string) list" where
  "sentiment_emoji =
     [(''positive'', ''U+1F60A''),
      (''negative'', ''U+1F61E''),
      (''neutral'', ''U+1F610''),
      (''mixed'', ''U+1F914'')]"

definition sentiment_step :: "TextAnalyticsClient \<Rightarrow> string list \<Rightarrow> world \<Rightarrow> exn option \<times> world" where
  "sentiment_step client documents w0 =
     (let w1 = st (Subheader ''U+1F60A Sentiment Analysis'') w0;
          w2 = remote (AnalyzeSentiment documents) w1
      in case first_result (analyze_sentiment client documents) of
           Inl e \<Rightarrow> (Some e, w2)
         | Inr sentiment_result \<Rightarrow>
             (let label = sentiment sentiment_result;
                  scores = confidence_scores sentiment_result;
                  w3 = st (Markdown [Lit (''### '' @ dict_get sentiment_emoji label ''U+1F610''
                                           @ '' '' @ upper label)] False) w2;
                  w4 = st (Columns 3) w3;
                  w5 = st (Metric ''Positive'' [Pct (positive scores)]) w4;
                  w6 = st (Metric ''Negative'' [Pct (negative scores)]) w5;
                  w7 = st (Metric ''Neutral'' [Pct (neutral scores)]) w6
              in (None, st (Markdown [Lit ''---''] False) w7)))"

definition phrase_span :: "string \<Rightarrow> string" where
  \<open>phrase_span phrase =
     ''<span style="background-color: #E3F2FD; padding: 5px 10px; margin: 3px; border-radius: 15px; display: inline-block;">''
       @ phrase @ ''</span>''\<close>

definition key_phrases_step :: "TextAnalyticsClient \<Rightarrow> string list \<Rightarrow> world \<Rightarrow> exn option \<times> world" where
  "key_phrases_step client documents w0 =
     (let w1 = st (Subheader ''U+1F511 Key Phrases'') w0;
          w2 = remote (ExtractKeyPhrases documents) w1
      in case first_result (extract_key_phrases client documents) of
           Inl e \<Rightarrow> (Some e, w2)
         | Inr key_phrases_result \<Rightarrow>
             (let w3 = (if key_phrases key_phrases_result \<noteq> []
                        then st (Markdown
                                   [Lit (str_join '' ''
                                          (map phrase_span (take 10 (key_phrases key_phrases_result))))]
                                   True) w2
                        else st (Info [Lit ''No key phrases detected'']) w2)
              in (None, st (Markdown [Lit ''---''] False) w3)))"

definition language_step :: "TextAnalyticsClient \<Rightarrow> string list \<Rightarrow> world \<Rightarrow> exn option \<times> world" where
  "language_step client documents w0 =
     (let w1 = st (Subheader ''U+1F30D Language'') w0;
          w2 = remote (DetectLanguage documents) w1
      in case first_result (detect_language client documents) of
           Inl e \<Rightarrow> (Some e, w2)
         | Inr language_result \<Rightarrow>
             (let lang = primary_language language_result;
                  w3 = st (Columns 2) w2;
                  w4 = st (Info [Lit (''**'' @ name lang @ ''** ('' @ iso6391_name lang @ '')'')]) w3;
                  w5 = st (Info [Lit ''Confidence: **'', Pct (confidence_score lang), Lit ''**'']) w4
              in (None, st (Markdown [Lit ''---''] False) w5)))"

definition entity_row :: "CategorizedEntity \<Rightarrow> (string \<times> fstring) list" where
  "entity_row entity =
     [(''Entity'', [Lit (entity_text entity)]),
      (''Category'', [Lit (entity_category entity)]),
      (''Confidence'', [Pct (entity_confidence_score entity)])]"

definition entities_step :: "TextAnalyticsClient \<Rightarrow> string list \<Rightarrow> world \<Rightarrow> exn option \<times> world" where
  "entities_step client documents w0 =
     (let w1 = st (Subheader ''U+1F3F7 U+FE0F Named Entities'') w0;
          w2 = remote (RecognizeEntities documents) w1
      in case first_result (recognize_entities client documents) of
           Inl e \<Rightarrow> (Some e, w2)
         | Inr entities_result \<Rightarrow>
             (let w3 = (if entities entities_result \<noteq> []
                        then st (Dataframe (map entity_row (take 10 (entities entities_result)))) w2
                        else st (Info [Lit ''No entities detected'']) w2)
              in (None, st (Markdown [Lit ''---''] False) w3)))"

definition pii_row :: "PiiEntity \<Rightarrow> (string \<times> fstring) list" where
  "pii_row entity = [(''Type'', [Lit (pii_category entity)]), (''Text'', [Lit (pii_text entity)])]"

text \<open>
  The loop \<^verbatim>\<open>for entity in pii_result.entities: pii_data.append({...})\<close>: reading
  \<^verbatim>\<open>entity.category\<close> of an element that is no entity raises and ends the loop.
\<close>

fun pii_rows ::
  "PiiEntity item list \<Rightarrow> (string \<times> fstring) list list \<Rightarrow> exn + (string \<times> fstring) list list" where
  "pii_rows [] pii_data = Inr pii_data"
| "pii_rows (Result entity # rest) pii_data = pii_rows rest (pii_data @ [pii_row entity])"
| "pii_rows (NonResult e # rest) pii_data = Inl e"

text \<open>
  The body of the inner \<^verbatim>\<open>try\<close>, and the step with its bare \<^verbatim>\<open>except:\<close>. The warning is
  shown before the loop runs, and the expander is open before \<^verbatim>\<open>redacted_text\<close> is read:
  an exception raised there leaves them on the page.
\<close>

definition pii_try :: "TextAnalyticsClient \<Rightarrow> string list \<Rightarrow> world \<Rightarrow> exn option \<times> world" where
  "pii_try client documents w0 =
     (let w1 = remote (RecognizePiiEntities documents) w0
      in case first_result (recognize_pii_entities client documents) of
           Inl e \<Rightarrow> (Some e, w1)
         | Inr pii_result \<Rightarrow>
             (if pii_entities pii_result \<noteq> []
              then (let w2 = st (Warning [Lit ''U+26A0 U+FE0F '', Dec (length (pii_entities pii_result)),
                                          Lit '' PII entities detected'']) w1
                    in case pii_rows (pii_entities pii_result) [] of
                         Inl e \<Rightarrow> (Some e, w2)
                       | Inr pii_data \<Rightarrow>
                           (let w3 = st (Dataframe pii_data) w2;
                                w4 = st (Expander ''U+1F441 U+FE0F View Redacted Text'') w3
                            in case redacted_text pii_result of
                                 Inl e \<Rightarrow> (Some e, w4)
                               | Inr redacted \<Rightarrow> (None, st (Code redacted) w4)))
              else (None, st (Success ''U+2705 No personal information detected'') w1)))"

definition pii_step :: "TextAnalyticsClient \<Rightarrow> string list \<Rightarrow> world \<Rightarrow> world" where
  "pii_step client documents w0 =
     (let w1 = st (Subheader ''U+1F512 Personal Information (PII)'') w0
      in case pii_try client documents w1 of
           (None, w2) \<Rightarrow> w2
         | (Some e, w2) \<Rightarrow> st (Info [Lit ''PII detection not available for this language'']) w2)"

subsection \<open>The analysis and the column\<close>

text \<open>Steps 1 to 4 in sequence: the first exception ends the sequence.\<close>

definition steps_1_4 :: "TextAnalyticsClient \<Rightarrow> string list \<Rightarrow> world \<Rightarrow> exn option \<times> world" where
  "steps_1_4 client documents w0 =
     (case sentiment_step client documents w0 of
        (Some e, w1) \<Rightarrow> (Some e, w1)
      | (None, w1) \<Rightarrow>
          (case key_phrases_step client documents w1 of
             (Some e, w2) \<Rightarrow> (Some e, w2)
           | (None, w2) \<Rightarrow>
               (case language_step client documents w2 of
                  (Some e, w3) \<Rightarrow> (Some e, w3)
                | (None, w3) \<Rightarrow> entities_step client documents w3)))"

text \<open>The body of the outer \<^verbatim>\<open>try\<close>.\<close>

definition try_block :: "sdk \<Rightarrow> inputs \<Rightarrow> world \<Rightarrow> exn option \<times> world" where
  "try_block new_client ui w0 =
     (case new_client (endpoint ui) (api_key ui) of
        Inl e \<Rightarrow> (Some e, w0)
      | Inr client \<Rightarrow>
          (let documents = [user_text ui]
           in case steps_1_4 client documents w0 of
                (Some e, w1) \<Rightarrow> (Some e, w1)
              | (None, w1) \<Rightarrow> (None, pii_step client documents w1)))"

text \<open>The spinner block: the outer \<^verbatim>\<open>try\<close> with its handler \<^verbatim>\<open>except Exception as e\<close>.\<close>

definition analyze :: "sdk \<Rightarrow> inputs \<Rightarrow> world \<Rightarrow> world" where
  "analyze new_client ui w0 =
     (let w1 = st (Spinner ''Analyzing...'') w0
      in case try_block new_client ui w1 of
           (None, w2) \<Rightarrow> w2
         | (Some e, w2) \<Rightarrow>
             (let w3 = st (Error [Lit (''U+274C Error: '' @ str_exn e)]) w2
              in st (Info [Lit ''U+1F4A1 Make sure your credentials are correct'']) w3))"

text \<open>
  The block \<^verbatim>\<open>with col2:\<close>. A Python string is true when it is not empty;
  \<open>analyze_clicked\<close> is what \<^verbatim>\<open>st.button\<close> returns.
\<close>

definition col2 :: "sdk \<Rightarrow> inputs \<Rightarrow> world \<Rightarrow> world" where
  "col2 new_client ui w0 =
     (let w1 = st (Header ''U+1F3AF AI Analysis'') w0
      in if user_text ui \<noteq> [] \<and> endpoint ui \<noteq> [] \<and> api_key ui \<noteq> []
         then (let w2 = st (Button ''U+1F680 Analyze Text'') w1
               in if analyze_clicked ui then analyze new_client ui w2 else w2)
         else if user_text ui \<noteq> []
         then st (Warning [Lit ''U+26A0 U+FE0F Please enter Azure credentials in the sidebar'']) w1
         else st (Info [Lit ''U+1F448 Enter text to analyze'']) w1)"

subsection \<open>Observations on a run\<close>

text \<open>The empty world, and a world with widgets and calls appended.\<close>

definition blank :: world where
  "blank = \<lparr>display = [], calls = []\<rparr>"

definition adds :: "world \<Rightarrow> widget list \<Rightarrow> call list \<Rightarrow> world" where
  "adds w ws cs = w\<lparr>display := display w @ ws, calls := calls w @ cs\<rparr>"

text \<open>
  What each of the operations 1 to 4 raises on a batch, if anything: the remote call itself
  or the reading of its response.
\<close>

definition raised :: "exn + 'a \<Rightarrow> exn option" where
  "raised x = (case x of Inl e \<Rightarrow> Some e | Inr _ \<Rightarrow> None)"

definition step_failures :: "TextAnalyticsClient \<Rightarrow> string list \<Rightarrow> exn option list" where
  "step_failures client documents =
     [raised (first_result (analyze_sentiment client documents)),
      raised (first_result (extract_key_phrases client documents)),
      raised (first_result (detect_language client documents)),
      raised (first_result (recognize_entities client documents))]"

definition steps_1_4_calls :: "string list \<Rightarrow> call list" where
  "steps_1_4_calls documents =
     [AnalyzeSentiment documents, ExtractKeyPhrases documents,
      DetectLanguage documents, RecognizeEntities documents]"

definition five_calls :: "string list \<Rightarrow> call list" where
  "five_calls documents = steps_1_4_calls documents @ [RecognizePiiEntities documents]"

fun batch :: "call \<Rightarrow> string list" where
  "batch (AnalyzeSentiment documents) = documents"
| "batch (ExtractKeyPhrases documents) = documents"
| "batch (DetectLanguage documents) = documents"
| "batch (RecognizeEntities documents) = documents"
| "batch (RecognizePiiEntities documents) = documents"

text \<open>
  The outcome of the PII step as the page shows it: the warning with the number of
  entities, the success message, or the message that detection is not available.
  A page without any of the three shows no outcome: the step was not attempted.
\<close>

datatype PiiOutcome = Detected nat | NoPii | Unavailable

definition pii_outcome_of :: "widget \<Rightarrow> PiiOutcome option" where
  "pii_outcome_of x =
     (case x of
        Warning t \<Rightarrow>
          (case t of
             [Lit a, Dec n, Lit b] \<Rightarrow>
               if a = ''U+26A0 U+FE0F '' \<and> b = '' PII entities detected''
               then Some (Detected n) else None
           | _ \<Rightarrow> None)
      | Success s \<Rightarrow>
          if s = ''U+2705 No personal information detected'' then Some NoPii else None
      | Info t \<Rightarrow>
          if t = [Lit ''PII detection not available for this language'']
          then Some Unavailable else None
      | _ \<Rightarrow> None)"

definition pii_outcomes :: "widget list \<Rightarrow> PiiOutcome list" where
  "pii_outcomes ws = List.map_filter pii_outcome_of ws"

text \<open>The fatal error of a cycle is the \<^verbatim>\<open>st.error\<close> widget.\<close>

fun is_fatal :: "widget \<Rightarrow> bool" where
  "is_fatal (Error _) = True"
| "is_fatal _ = False"

subsection \<open>Example services\<close>

text \<open>
  A healthy service: the responses of the spec's first example scenario, one result per
  document of the batch. The others differ from it in one operation.
\<close>

definition healthy :: TextAnalyticsClient where
  "healthy =
     \<lparr>analyze_sentiment = (\<lambda>docs. Inr (map (\<lambda>_. Result
         \<lparr>sentiment = ''positive'',
          confidence_scores = \<lparr>positive = 0.95, negative = 0.02, neutral = 0.03\<rparr>\<rparr>) docs)),
      extract_key_phrases = (\<lambda>docs. Inr (map (\<lambda>_. Result \<lparr>key_phrases = [''product'']\<rparr>) docs)),
      detect_language = (\<lambda>docs. Inr (map (\<lambda>_. Result
         \<lparr>primary_language =
            \<lparr>name = ''English'', iso6391_name = ''en'', confidence_score = 0.99\<rparr>\<rparr>) docs)),
      recognize_entities = (\<lambda>docs. Inr (map (\<lambda>_. Result \<lparr>entities = []\<rparr>) docs)),
      recognize_pii_entities = (\<lambda>docs. Inr (map (\<lambda>doc. Result
         \<lparr>pii_entities = [], redacted_text = Inr doc\<rparr>) docs))\<rparr>"

definition sentiment_401 :: TextAnalyticsClient where
  "sentiment_401 = healthy\<lparr>analyze_sentiment := (\<lambda>docs. Inl (OtherError ''(401) Access denied''))\<rparr>"

definition key_phrases_down :: TextAnalyticsClient where
  "key_phrases_down = healthy\<lparr>extract_key_phrases := (\<lambda>docs. Inl (OtherError ''Service unavailable''))\<rparr>"

definition pii_down :: TextAnalyticsClient where
  "pii_down = healthy\<lparr>recognize_pii_entities := (\<lambda>docs. Inl (OtherError ''Unsupported language''))\<rparr>"

text \<open>
  A service that detects two PII entities and returns, as the second one, an object whose
  attribute \<^verbatim>\<open>category\<close> cannot be read.
\<close>

definition masked_result :: RecognizePiiEntitiesResult where
  "masked_result =
     \<lparr>pii_entities =
        [Result \<lparr>pii_category = ''Person'', pii_text = ''Ada''\<rparr>,
         NonResult (OtherError ''no attribute category'')],
      redacted_text = Inr ''*** and ***''\<rparr>"

definition pii_masked :: TextAnalyticsClient where
  "pii_masked =
     healthy\<lparr>recognize_pii_entities := (\<lambda>docs. Inr (map (\<lambda>_. Result masked_result) docs))\<rparr>"

definition odd_result :: AnalyzeSentimentResult where
  "odd_result =
     \<lparr>sentiment = ''unknown'',
      confidence_scores = \<lparr>positive = 2, negative = - 1, neutral = 0.5\<rparr>\<rparr>"

definition odd_sentiment :: TextAnalyticsClient where
  "odd_sentiment =
     healthy\<lparr>analyze_sentiment := (\<lambda>docs. Inr (map (\<lambda>_. Result odd_result) docs))\<rparr>"

definition twelve_phrases :: "string list" where
  "twelve_phrases =
     [''p01'', ''p02'', ''p03'', ''p04'', ''p05'', ''p06'',
      ''p07'', ''p08'', ''p09'', ''p10'', ''p11'', ''p12'']"

definition eleven_entities :: "CategorizedEntity list" where
  "eleven_entities =
     map (\<lambda>t. \<lparr>entity_text = t, entity_category = ''Product'', entity_confidence_score = 0.5\<rparr>)
       (take 11 twelve_phrases)"

definition long_lists :: TextAnalyticsClient where
  "long_lists =
     healthy\<lparr>extract_key_phrases := (\<lambda>docs. Inr (map (\<lambda>_. Result \<lparr>key_phrases = twelve_phrases\<rparr>) docs)),
             recognize_entities := (\<lambda>docs. Inr (map (\<lambda>_. Result \<lparr>entities = eleven_entities\<rparr>) docs))\<rparr>"

definition demo_ui :: inputs where
  "demo_ui =
     \<lparr>endpoint = ''https://demo.cognitiveservices.azure.com/'',
      api_key = ''0123456789abcdef'',
      user_text = ''I absolutely love this product!'',
      analyze_clicked = True\<rparr>"

definition no_key_ui :: inputs where
  "no_key_ui = demo_ui\<lparr>api_key := []\<rparr>"

text \<open>An SDK whose constructor returns the given client for every endpoint and key.\<close>

definition always :: "TextAnalyticsClient \<Rightarrow> sdk" where
  "always client endpoint_url key = Inr client"

text \<open>
  The data model of the spec for a sentiment result: three scores within \<open>[0,1]\<close> and one
  of four labels.
\<close>

definition valid_sentiment :: "AnalyzeSentimentResult \<Rightarrow> bool" where
  "valid_sentiment r \<longleftrightarrow>
     0 \<le> positive (confidence_scores r) \<and> positive (confidence_scores r) \<le> 1
     \<and> 0 \<le> negative (confidence_scores r) \<and> negative (confidence_scores r) \<le> 1
     \<and> 0 \<le> neutral (confidence_scores r) \<and> neutral (confidence_scores r) \<le> 1
     \<and> sentiment r \<in> set [''positive'', ''negative'', ''neutral'', ''mixed'']"

text \<open>A page is quiet when it shows no outcome and no header of the PII step and no fatal error.\<close>

definition quiet :: "widget list \<Rightarrow> bool" where
  "quiet ws \<longleftrightarrow>
     pii_outcomes ws = [] \<and> filter is_fatal ws = []
     \<and> Subheader ''U+1F512 Personal Information (PII)'' \<notin> set ws"

subsection \<open>The cycle statement by statement, with its variables and a stateful service\<close>

text \<open>
  A second, finer model of the spinner block, for the claim about state carried from one
  cycle to the next. It makes explicit what the functional model above leaves out:
  \<^item> the variables of the script: every assignment writes a slot of the \<open>store\<close>, every
    use of a variable reads its slot, and reading a slot that holds nothing raises
    Python's NameError; a cycle may start in any store (what an earlier cycle left);
  \<^item> the state of the remote service, hidden from the script: a \<open>service\<close> answers a
    request according to its hidden state and moves to a next hidden state.
\<close>

record 'r service =
  answers :: "'r \<Rightarrow> TextAnalyticsClient"
  advance :: "'r \<Rightarrow> call \<Rightarrow> 'r"

type_synonym 'r stateful_sdk = "string \<Rightarrow> string \<Rightarrow> exn + 'r service"

text \<open>The loop variable \<^verbatim>\<open>entity\<close> is used by both loops.\<close>

datatype entity_value = AnEntity CategorizedEntity | APiiEntity "PiiEntity item"

record 'r store =
  v_client :: "'r service option"
  v_documents :: "string list option"
  v_sentiment_result :: "AnalyzeSentimentResult item option"
  v_sentiment :: "string option"
  v_scores :: "SentimentConfidenceScores option"
  v_sentiment_emoji :: "(string \<times> string) list option"
  v_col_pos :: "nat option"
  v_col_neg :: "nat option"
  v_col_neu :: "nat option"
  v_key_phrases_result :: "ExtractKeyPhrasesResult item option"
  v_phrases_html :: "string option"
  v_language_result :: "DetectLanguageResult item option"
  v_lang :: "DetectedLanguage option"
  v_col_lang :: "nat option"
  v_col_conf :: "nat option"
  v_entities_result :: "RecognizeEntitiesResult item option"
  v_entity_data :: "(string \<times> fstring) list list option"
  v_entity :: "entity_value option"
  v_pii_result :: "RecognizePiiEntitiesResult item option"
  v_pii_data :: "(string \<times> fstring) list list option"
  v_e :: "exn option"

record 'r config =
  vars :: "'r store"
  hidden :: 'r
  page :: world

type_synonym ('r, 'a) prog = "'r config \<Rightarrow> (exn + 'a) \<times> 'r config"

definition ret :: "'a \<Rightarrow> ('r, 'a) prog" where
  "ret x c = (Inr x, c)"

definition raise :: "exn \<Rightarrow> ('r, 'a) prog" where
  "raise e c = (Inl e, c)"

definition bind :: "('r, 'a) prog \<Rightarrow> ('a \<Rightarrow> ('r, 'b) prog) \<Rightarrow> ('r, 'b) prog" where
  "bind m f c = (case m c of (Inl e, c') \<Rightarrow> (Inl e, c') | (Inr x, c') \<Rightarrow> f x c')"

definition seq :: "('r, unit) prog \<Rightarrow> ('r, 'b) prog \<Rightarrow> ('r, 'b) prog" where
  "seq m n = bind m (\<lambda>_. n)"

definition lift :: "exn + 'a \<Rightarrow> ('r, 'a) prog" where
  "lift x c = (x, c)"

definition try_except :: "('r, 'a) prog \<Rightarrow> (exn \<Rightarrow> ('r, 'a) prog) \<Rightarrow> ('r, 'a) prog" where
  "try_except m handler c = (case m c of (Inl e, c') \<Rightarrow> handler e c' | (Inr x, c') \<Rightarrow> (Inr x, c'))"

definition name_error :: "string \<Rightarrow> exn" where
  "name_error x = OtherError (''name '' @ [CHR 0x27] @ x @ [CHR 0x27] @ '' is not defined'')"

text \<open>Reading the variable \<open>x\<close>, kept in the slot \<open>slot\<close>; assigning; showing a widget.\<close>

definition get :: "('r store \<Rightarrow> 'a option) \<Rightarrow> string \<Rightarrow> ('r, 'a) prog" where
  "get slot x c = (case slot (vars c) of None \<Rightarrow> (Inl (name_error x), c) | Some v \<Rightarrow> (Inr v, c))"

definition assign :: "('r store \<Rightarrow> 'r store) \<Rightarrow> ('r, unit) prog" where
  "assign upd c = (Inr (), c\<lparr>vars := upd (vars c)\<rparr>)"

definition emit :: "widget \<Rightarrow> ('r, unit) prog" where
  "emit x c = (Inr (), c\<lparr>page := st x (page c)\<rparr>)"

text \<open>
  A remote operation: the request is logged, the service answers according to its hidden
  state and moves on.
\<close>

definition invoke ::
  "(TextAnalyticsClient \<Rightarrow> string list \<Rightarrow> exn + 'a) \<Rightarrow> (string list \<Rightarrow> call)
     \<Rightarrow> 'r service \<Rightarrow> string list \<Rightarrow> ('r, 'a) prog" where
  "invoke operation request svc documents c =
     (operation (answers svc (hidden c)) documents,
      c\<lparr>hidden := advance svc (hidden c) (request documents),
        page := remote (request documents) (page c)\<rparr>)"

definition index0 :: "'a list \<Rightarrow> exn + 'a" where
  "index0 xs = (case xs of [] \<Rightarrow> Inl IndexError | x # _ \<Rightarrow> Inr x)"

definition attrs :: "'a item \<Rightarrow> exn + 'a" where
  "attrs x = (case x of Result r \<Rightarrow> Inr r | NonResult e \<Rightarrow> Inl e)"

text \<open>
  The attributes of the value of \<^verbatim>\<open>entity\<close>. Each loop binds the variable before reading it,
  so the other kind of value is never met there; reading it raises.
\<close>

definition as_entity :: "entity_value \<Rightarrow> exn + CategorizedEntity" where
  "as_entity v = (case v of AnEntity x \<Rightarrow> Inr x | APiiEntity _ \<Rightarrow> Inl (OtherError ''AttributeError''))"

definition as_pii_entity :: "entity_value \<Rightarrow> exn + PiiEntity" where
  "as_pii_entity v = (case v of APiiEntity x \<Rightarrow> attrs x | AnEntity _ \<Rightarrow> Inl (OtherError ''AttributeError''))"

text \<open>Lines 79 to 105.\<close>

definition sentiment_block :: "('r, unit) prog" where
  "sentiment_block =
     seq (emit (Subheader ''U+1F60A Sentiment Analysis''))
    (bind (get v_client ''client'') (\<lambda>client.
     bind (get v_documents ''documents'') (\<lambda>documents.
     bind (invoke analyze_sentiment AnalyzeSentiment client documents) (\<lambda>returned.
     bind (lift (index0 returned)) (\<lambda>element.
     seq (assign (\<lambda>s. s\<lparr>v_sentiment_result := Some element\<rparr>))
    (bind (get v_sentiment_result ''sentiment_result'') (\<lambda>sentiment_result.
     bind (lift (attrs sentiment_result)) (\<lambda>r.
     seq (assign (\<lambda>s. s\<lparr>v_sentiment := Some (sentiment r)\<rparr>))
    (bind (get v_sentiment_result ''sentiment_result'') (\<lambda>sentiment_result.
     bind (lift (attrs sentiment_result)) (\<lambda>r.
     seq (assign (\<lambda>s. s\<lparr>v_scores := Some (confidence_scores r)\<rparr>))
    (seq (assign (\<lambda>s. s\<lparr>v_sentiment_emoji := Some sentiment_emoji\<rparr>))
    (bind (get v_sentiment_emoji ''sentiment_emoji'') (\<lambda>emoji.
     bind (get v_sentiment ''sentiment'') (\<lambda>label.
     seq (emit (Markdown [Lit (''### '' @ dict_get emoji label ''U+1F610'' @ '' '' @ upper label)] False))
    (seq (emit (Columns 3))
    (seq (assign (\<lambda>s. s\<lparr>v_col_pos := Some 0, v_col_neg := Some 1, v_col_neu := Some 2\<rparr>))
    (bind (get v_col_pos ''col_pos'') (\<lambda>_.
     bind (get v_scores ''scores'') (\<lambda>scores.
     seq (emit (Metric ''Positive'' [Pct (positive scores)]))
    (bind (get v_col_neg ''col_neg'') (\<lambda>_.
     bind (get v_scores ''scores'') (\<lambda>scores.
     seq (emit (Metric ''Negative'' [Pct (negative scores)]))
    (bind (get v_col_neu ''col_neu'') (\<lambda>_.
     bind (get v_scores ''scores'') (\<lambda>scores.
     seq (emit (Metric ''Neutral'' [Pct (neutral scores)]))
    (emit (Markdown [Lit ''---''] False))))))))))))))))))))))))))))"

text \<open>Lines 107 to 121.\<close>

definition key_phrases_block :: "('r, unit) prog" where
  "key_phrases_block =
     seq (emit (Subheader ''U+1F511 Key Phrases''))
    (bind (get v_client ''client'') (\<lambda>client.
     bind (get v_documents ''documents'') (\<lambda>documents.
     bind (invoke extract_key_phrases ExtractKeyPhrases client documents) (\<lambda>returned.
     bind (lift (index0 returned)) (\<lambda>element.
     seq (assign (\<lambda>s. s\<lparr>v_key_phrases_result := Some element\<rparr>))
    (bind (get v_key_phrases_result ''key_phrases_result'') (\<lambda>key_phrases_result.
     bind (lift (attrs key_phrases_result)) (\<lambda>r.
     seq (if key_phrases r \<noteq> []
          then bind (get v_key_phrases_result ''key_phrases_result'') (\<lambda>key_phrases_result.
               bind (lift (attrs key_phrases_result)) (\<lambda>r.
               seq (assign (\<lambda>s. s\<lparr>v_phrases_html :=
                      Some (str_join '' '' (map phrase_span (take 10 (key_phrases r))))\<rparr>))
              (bind (get v_phrases_html ''phrases_html'') (\<lambda>phrases_html.
               emit (Markdown [Lit phrases_html] True)))))
          else emit (Info [Lit ''No key phrases detected'']))
    (emit (Markdown [Lit ''---''] False))))))))))"

text \<open>Lines 123 to 134.\<close>

definition language_block :: "('r, unit) prog" where
  "language_block =
     seq (emit (Subheader ''U+1F30D Language''))
    (bind (get v_client ''client'') (\<lambda>client.
     bind (get v_documents ''documents'') (\<lambda>documents.
     bind (invoke detect_language DetectLanguage client documents) (\<lambda>returned.
     bind (lift (index0 returned)) (\<lambda>element.
     seq (assign (\<lambda>s. s\<lparr>v_language_result := Some element\<rparr>))
    (bind (get v_language_result ''language_result'') (\<lambda>language_result.
     bind (lift (attrs language_result)) (\<lambda>r.
     seq (assign (\<lambda>s. s\<lparr>v_lang := Some (primary_language r)\<rparr>))
    (seq (emit (Columns 2))
    (seq (assign (\<lambda>s. s\<lparr>v_col_lang := Some 0, v_col_conf := Some 1\<rparr>))
    (bind (get v_col_lang ''col_lang'') (\<lambda>_.
     bind (get v_lang ''lang'') (\<lambda>lang.
     seq (emit (Info [Lit (''**'' @ name lang @ ''** ('' @ iso6391_name lang @ '')'')]))
    (bind (get v_col_conf ''col_conf'') (\<lambda>_.
     bind (get v_lang ''lang'') (\<lambda>lang.
     seq (emit (Info [Lit ''Confidence: **'', Pct (confidence_score lang), Lit ''**'']))
    (emit (Markdown [Lit ''---''] False))))))))))))))))))"

text \<open>Lines 136 to 153, with the loop that fills \<^verbatim>\<open>entity_data\<close>.\<close>

definition entity_body :: "CategorizedEntity \<Rightarrow> ('r, unit) prog" where
  "entity_body x =
     seq (assign (\<lambda>s. s\<lparr>v_entity := Some (AnEntity x)\<rparr>))
    (bind (get v_entity_data ''entity_data'') (\<lambda>entity_data.
     bind (get v_entity ''entity'') (\<lambda>entity.
     bind (lift (as_entity entity)) (\<lambda>entity.
     assign (\<lambda>s. s\<lparr>v_entity_data := Some (entity_data @ [entity_row entity])\<rparr>)))))"

fun entity_loop :: "CategorizedEntity list \<Rightarrow> ('r, unit) prog" where
  "entity_loop [] c = (Inr (), c)"
| "entity_loop (x # xs) c =
     (case entity_body x c of (Inl e, c') \<Rightarrow> (Inl e, c') | (Inr _, c') \<Rightarrow> entity_loop xs c')"

definition entities_block :: "('r, unit) prog" where
  "entities_block =
     seq (emit (Subheader ''U+1F3F7 U+FE0F Named Entities''))
    (bind (get v_client ''client'') (\<lambda>client.
     bind (get v_documents ''documents'') (\<lambda>documents.
     bind (invoke recognize_entities RecognizeEntities client documents) (\<lambda>returned.
     bind (lift (index0 returned)) (\<lambda>element.
     seq (assign (\<lambda>s. s\<lparr>v_entities_result := Some element\<rparr>))
    (bind (get v_entities_result ''entities_result'') (\<lambda>entities_result.
     bind (lift (attrs entities_result)) (\<lambda>r.
     seq (if entities r \<noteq> []
          then seq (assign (\<lambda>s. s\<lparr>v_entity_data := Some []\<rparr>))
              (bind (get v_entities_result ''entities_result'') (\<lambda>entities_result.
               bind (lift (attrs entities_result)) (\<lambda>r.
               seq (entity_loop (take 10 (entities r)))
              (bind (get v_entity_data ''entity_data'') (\<lambda>entity_data.
               emit (Dataframe entity_data))))))
          else emit (Info [Lit ''No entities detected'']))
    (emit (Markdown [Lit ''---''] False))))))))))"

text \<open>Lines 155 to 178, with the loop that fills \<^verbatim>\<open>pii_data\<close> and the bare handler.\<close>

definition pii_body :: "PiiEntity item \<Rightarrow> ('r, unit) prog" where
  "pii_body x =
     seq (assign (\<lambda>s. s\<lparr>v_entity := Some (APiiEntity x)\<rparr>))
    (bind (get v_pii_data ''pii_data'') (\<lambda>pii_data.
     bind (get v_entity ''entity'') (\<lambda>entity.
     bind (lift (as_pii_entity entity)) (\<lambda>entity.
     assign (\<lambda>s. s\<lparr>v_pii_data := Some (pii_data @ [pii_row entity])\<rparr>)))))"

fun pii_loop :: "PiiEntity item list \<Rightarrow> ('r, unit) prog" where
  "pii_loop [] c = (Inr (), c)"
| "pii_loop (x # xs) c =
     (case pii_body x c of (Inl e, c') \<Rightarrow> (Inl e, c') | (Inr _, c') \<Rightarrow> pii_loop xs c')"

definition pii_block :: "('r, unit) prog" where
  "pii_block =
     seq (emit (Subheader ''U+1F512 Personal Information (PII)''))
    (try_except
      (bind (get v_client ''client'') (\<lambda>client.
       bind (get v_documents ''documents'') (\<lambda>documents.
       bind (invoke recognize_pii_entities RecognizePiiEntities client documents) (\<lambda>returned.
       bind (lift (index0 returned)) (\<lambda>element.
       seq (assign (\<lambda>s. s\<lparr>v_pii_result := Some element\<rparr>))
      (bind (get v_pii_result ''pii_result'') (\<lambda>pii_result.
       bind (lift (attrs pii_result)) (\<lambda>r.
       if pii_entities r \<noteq> []
       then bind (get v_pii_result ''pii_result'') (\<lambda>pii_result.
            bind (lift (attrs pii_result)) (\<lambda>r.
            seq (emit (Warning [Lit ''U+26A0 U+FE0F '', Dec (length (pii_entities r)),
                                 Lit '' PII entities detected'']))
           (seq (assign (\<lambda>s. s\<lparr>v_pii_data := Some []\<rparr>))
           (bind (get v_pii_result ''pii_result'') (\<lambda>pii_result.
            bind (lift (attrs pii_result)) (\<lambda>r.
            seq (pii_loop (pii_entities r))
           (bind (get v_pii_data ''pii_data'') (\<lambda>pii_data.
            seq (emit (Dataframe pii_data))
           (seq (emit (Expander ''U+1F441 U+FE0F View Redacted Text''))
           (bind (get v_pii_result ''pii_result'') (\<lambda>pii_result.
            bind (lift (attrs pii_result)) (\<lambda>r.
            bind (lift (redacted_text r)) (\<lambda>redacted.
            emit (Code redacted))))))))))))))
       else emit (Success ''U+2705 No personal information detected'')))))))))
      (\<lambda>_. emit (Info [Lit ''PII detection not available for this language''])))"

text \<open>
  The spinner block, lines 69 to 182: the outer \<^verbatim>\<open>try\<close> and its handler, which binds the
  exception to \<^verbatim>\<open>e\<close> and unbinds it at its end.
\<close>

definition five_blocks :: "('r, unit) prog" where
  "five_blocks =
     seq sentiment_block
    (seq key_phrases_block
    (seq language_block
    (seq entities_block pii_block)))"

definition cycle :: "'r stateful_sdk \<Rightarrow> inputs \<Rightarrow> ('r, unit) prog" where
  "cycle new_service ui =
     seq (emit (Spinner ''Analyzing...''))
    (try_except
      (bind (lift (new_service (endpoint ui) (api_key ui))) (\<lambda>svc.
       seq (assign (\<lambda>s. s\<lparr>v_client := Some svc\<rparr>))
      (seq (assign (\<lambda>s. s\<lparr>v_documents := Some [user_text ui]\<rparr>))
       five_blocks)))
      (\<lambda>e. seq (assign (\<lambda>s. s\<lparr>v_e := Some e\<rparr>))
           (bind (get v_e ''e'') (\<lambda>e.
            seq (emit (Error [Lit (''U+274C Error: '' @ str_exn e)]))
           (seq (emit (Info [Lit ''U+1F4A1 Make sure your credentials are correct'']))
           (assign (\<lambda>s. s\<lparr>v_e := None\<rparr>)))))))"

definition run_cycle :: "'r stateful_sdk \<Rightarrow> inputs \<Rightarrow> 'r config \<Rightarrow> 'r config" where
  "run_cycle new_service ui c = snd (cycle new_service ui c)"

text \<open>
  A service is deterministic when its answers do not depend on its hidden state. The
  functional SDK that answers as the stateful one does in the hidden state \<open>r\<close>.
\<close>

definition deterministic :: "'r service \<Rightarrow> bool" where
  "deterministic svc \<longleftrightarrow> (\<forall>r r'. answers svc r = answers svc r')"

definition answering_at :: "'r stateful_sdk \<Rightarrow> 'r \<Rightarrow> sdk" where
  "answering_at new_service r endpoint_url key =
     (case new_service endpoint_url key of Inl e \<Rightarrow> Inl e | Inr svc \<Rightarrow> Inr (answers svc r))"

text \<open>
  How a block of the statement-level model relates to a step of the functional one, in the
  configuration \<open>c\<close> where \<^verbatim>\<open>client\<close> and \<^verbatim>\<open>documents\<close> hold \<open>svc\<close> and \<open>d\<close>: the same
  exception or none, the same page and call log, and the two variables still bound.
\<close>

definition to_sum :: "exn option \<Rightarrow> exn + unit" where
  "to_sum x = (case x of None \<Rightarrow> Inr () | Some e \<Rightarrow> Inl e)"

definition sim ::
  "('r, unit) prog \<Rightarrow> (TextAnalyticsClient \<Rightarrow> string list \<Rightarrow> world \<Rightarrow> exn option \<times> world)
     \<Rightarrow> 'r config \<Rightarrow> 'r service \<Rightarrow> string list \<Rightarrow> bool" where
  "sim p f c svc d \<longleftrightarrow>
     fst (p c) = to_sum (fst (f (answers svc (hidden c)) d (page c)))
     \<and> page (snd (p c)) = snd (f (answers svc (hidden c)) d (page c))
     \<and> v_client (vars (snd (p c))) = Some svc
     \<and> v_documents (vars (snd (p c))) = Some d"

definition thn ::
  "(TextAnalyticsClient \<Rightarrow> string list \<Rightarrow> world \<Rightarrow> exn option \<times> world)
     \<Rightarrow> (TextAnalyticsClient \<Rightarrow> string list \<Rightarrow> world \<Rightarrow> exn option \<times> world)
     \<Rightarrow> TextAnalyticsClient \<Rightarrow> string list \<Rightarrow> world \<Rightarrow> exn option \<times> world" where
  "thn f g client d w = (case f client d w of (Some e, w') \<Rightarrow> (Some e, w') | (None, w') \<Rightarrow> g client d w')"

text \<open>
  Example configurations: a service that counts its requests in its hidden state and
  always answers as the given client; one whose answers depend on the count; the empty
  store, and a store with values left by an earlier cycle.
\<close>

definition steady :: "TextAnalyticsClient \<Rightarrow> nat service" where
  "steady client = \<lparr>answers = (\<lambda>r. client), advance = (\<lambda>r request. Suc r)\<rparr>"

definition flaky :: "nat service" where
  "flaky = \<lparr>answers = (\<lambda>r. if r = 0 then sentiment_401 else healthy),
            advance = (\<lambda>r request. Suc r)\<rparr>"

definition always_service :: "'r service \<Rightarrow> 'r stateful_sdk" where
  "always_service svc endpoint_url key = Inr svc"

definition empty_store :: "'r store" where
  "empty_store =
     \<lparr>v_client = None, v_documents = None, v_sentiment_result = None, v_sentiment = None,
      v_scores = None, v_sentiment_emoji = None, v_col_pos = None, v_col_neg = None,
      v_col_neu = None, v_key_phrases_result = None, v_phrases_html = None,
      v_language_result = None, v_lang = None, v_col_lang = None, v_col_conf = None,
      v_entities_result = None, v_entity_data = None, v_entity = None, v_pii_result = None,
      v_pii_data = None, v_e = None\<rparr>"

definition stale_store :: "nat store" where
  "stale_store =
     empty_store
       \<lparr>v_client := Some (steady sentiment_401),
        v_documents := Some [''an earlier text''],
        v_sentiment := Some ''negative'',
        v_entity_data := Some [[(''Entity'', [Lit ''an earlier entity''])]],
        v_pii_data := Some [[(''Type'', [Lit ''Person'']), (''Text'', [Lit ''an earlier name''])]],
        v_e := Some IndexError\<rparr>"

section \<open>Auxiliary facts\<close>

subsection \<open>Appending to the world\<close>


lemma st_adds: "st x w = adds w [x] []"
  by (simp add: st_def adds_def)

lemma remote_adds: "remote c w = adds w [] [c]"
  by (simp add: remote_def adds_def)

lemma adds_adds: "adds (adds w ws cs) ws' cs' = adds w (ws @ ws') (cs @ cs')"
  by (simp add: adds_def)

lemma display_adds: "display (adds w ws cs) = display w @ ws"
  by (simp add: adds_def)

lemma calls_adds: "calls (adds w ws cs) = calls w @ cs"
  by (simp add: adds_def)

lemma display_blank: "display blank = []"
  by (simp add: blank_def)

lemma calls_blank: "calls blank = []"
  by (simp add: blank_def)

lemmas adds_simps = st_adds remote_adds adds_adds display_adds calls_adds display_blank calls_blank

lemma raised_None: "raised x = None \<Longrightarrow> \<exists>r. x = Inr r"
  by (cases x) (simp_all add: raised_def)

lemma raised_Some: "raised x = Some e \<Longrightarrow> x = Inl e"
  by (cases x) (simp_all add: raised_def)

lemma sentiment_step_fail:
  "first_result (analyze_sentiment client d) = Inl e \<Longrightarrow>
   sentiment_step client d w =
     (Some e, adds w [Subheader ''U+1F60A Sentiment Analysis''] [AnalyzeSentiment d])"
  by (simp add: sentiment_step_def Let_def adds_simps)

lemma sentiment_step_ok:
  "first_result (analyze_sentiment client d) = Inr r \<Longrightarrow>
   sentiment_step client d w =
     (None, adds w
        [Subheader ''U+1F60A Sentiment Analysis'',
         Markdown [Lit (''### '' @ dict_get sentiment_emoji (sentiment r) ''U+1F610''
                         @ '' '' @ upper (sentiment r))] False,
         Columns 3,
         Metric ''Positive'' [Pct (positive (confidence_scores r))],
         Metric ''Negative'' [Pct (negative (confidence_scores r))],
         Metric ''Neutral'' [Pct (neutral (confidence_scores r))],
         Markdown [Lit ''---''] False]
        [AnalyzeSentiment d])"
  by (simp add: sentiment_step_def Let_def adds_simps)

lemma key_phrases_step_fail:
  "first_result (extract_key_phrases client d) = Inl e \<Longrightarrow>
   key_phrases_step client d w =
     (Some e, adds w [Subheader ''U+1F511 Key Phrases''] [ExtractKeyPhrases d])"
  by (simp add: key_phrases_step_def Let_def adds_simps)

lemma key_phrases_step_ok:
  "first_result (extract_key_phrases client d) = Inr r \<Longrightarrow>
   key_phrases_step client d w =
     (None, adds w
        [Subheader ''U+1F511 Key Phrases'',
         if key_phrases r \<noteq> []
         then Markdown [Lit (str_join '' '' (map phrase_span (take 10 (key_phrases r))))] True
         else Info [Lit ''No key phrases detected''],
         Markdown [Lit ''---''] False]
        [ExtractKeyPhrases d])"
  by (simp add: key_phrases_step_def Let_def adds_simps)

lemma language_step_fail:
  "first_result (detect_language client d) = Inl e \<Longrightarrow>
   language_step client d w =
     (Some e, adds w [Subheader ''U+1F30D Language''] [DetectLanguage d])"
  by (simp add: language_step_def Let_def adds_simps)

lemma language_step_ok:
  "first_result (detect_language client d) = Inr r \<Longrightarrow>
   language_step client d w =
     (None, adds w
        [Subheader ''U+1F30D Language'',
         Columns 2,
         Info [Lit (''**'' @ name (primary_language r) @ ''** (''
                     @ iso6391_name (primary_language r) @ '')'')],
         Info [Lit ''Confidence: **'', Pct (confidence_score (primary_language r)), Lit ''**''],
         Markdown [Lit ''---''] False]
        [DetectLanguage d])"
  by (simp add: language_step_def Let_def adds_simps)

lemma entities_step_fail:
  "first_result (recognize_entities client d) = Inl e \<Longrightarrow>
   entities_step client d w =
     (Some e, adds w [Subheader ''U+1F3F7 U+FE0F Named Entities''] [RecognizeEntities d])"
  by (simp add: entities_step_def Let_def adds_simps)

lemma entities_step_ok:
  "first_result (recognize_entities client d) = Inr r \<Longrightarrow>
   entities_step client d w =
     (None, adds w
        [Subheader ''U+1F3F7 U+FE0F Named Entities'',
         if entities r \<noteq> []
         then Dataframe (map entity_row (take 10 (entities r)))
         else Info [Lit ''No entities detected''],
         Markdown [Lit ''---''] False]
        [RecognizeEntities d])"
  by (simp add: entities_step_def Let_def adds_simps)

lemma pii_step_fail:
  "first_result (recognize_pii_entities client d) = Inl e \<Longrightarrow>
   pii_step client d w =
     adds w [Subheader ''U+1F512 Personal Information (PII)'',
             Info [Lit ''PII detection not available for this language'']]
            [RecognizePiiEntities d]"
  by (simp add: pii_step_def pii_try_def Let_def adds_simps)

lemma pii_step_ok:
  "first_result (recognize_pii_entities client d) = Inr r \<Longrightarrow>
   pii_step client d w =
     adds w (Subheader ''U+1F512 Personal Information (PII)'' #
             (if pii_entities r = []
              then [Success ''U+2705 No personal information detected'']
              else Warning [Lit ''U+26A0 U+FE0F '', Dec (length (pii_entities r)),
                            Lit '' PII entities detected''] #
                   (case pii_rows (pii_entities r) [] of
                      Inl e \<Rightarrow> [Info [Lit ''PII detection not available for this language'']]
                    | Inr pii_data \<Rightarrow>
                        Dataframe pii_data # Expander ''U+1F441 U+FE0F View Redacted Text'' #
                        (case redacted_text r of
                           Inl e \<Rightarrow> [Info [Lit ''PII detection not available for this language'']]
                         | Inr redacted \<Rightarrow> [Code redacted]))))
            [RecognizePiiEntities d]"
  by (simp add: pii_step_def pii_try_def Let_def adds_simps split: sum.splits)

lemma pii_try_raises:
  "first_result (recognize_pii_entities client d) = Inr r \<Longrightarrow>
   fst (pii_try client d w) = Some e \<longleftrightarrow>
     pii_entities r \<noteq> []
     \<and> (pii_rows (pii_entities r) [] = Inl e
          \<or> (\<exists>pii_data. pii_rows (pii_entities r) [] = Inr pii_data) \<and> redacted_text r = Inl e)"
  by (auto simp: pii_try_def Let_def split: sum.splits)


subsection \<open>A run appends to the world it starts in\<close>


lemmas step_eqs =
  sentiment_step_fail sentiment_step_ok key_phrases_step_fail key_phrases_step_ok
  language_step_fail language_step_ok entities_step_fail entities_step_ok

lemma steps_1_4_frame:
  "steps_1_4 client d w =
     (fst (steps_1_4 client d blank),
      adds w (display (snd (steps_1_4 client d blank))) (calls (snd (steps_1_4 client d blank))))"
proof (cases "first_result (analyze_sentiment client d)")
  case (Inl e)
  then show ?thesis by (simp add: steps_1_4_def step_eqs adds_simps)
next
  case r1: (Inr r1)
  show ?thesis
  proof (cases "first_result (extract_key_phrases client d)")
    case (Inl e)
    with r1 show ?thesis by (simp add: steps_1_4_def step_eqs adds_simps)
  next
    case r2: (Inr r2)
    show ?thesis
    proof (cases "first_result (detect_language client d)")
      case (Inl e)
      with r1 r2 show ?thesis by (simp add: steps_1_4_def step_eqs adds_simps)
    next
      case r3: (Inr r3)
      show ?thesis
      proof (cases "first_result (recognize_entities client d)")
        case (Inl e)
        with r1 r2 r3 show ?thesis by (simp add: steps_1_4_def step_eqs adds_simps)
      next
        case (Inr r4)
        with r1 r2 r3 show ?thesis by (simp add: steps_1_4_def step_eqs adds_simps)
      qed
    qed
  qed
qed

lemma pii_step_frame:
  "pii_step client d w =
     adds w (display (pii_step client d blank)) (calls (pii_step client d blank))"
  by (cases "first_result (recognize_pii_entities client d)")
     (simp_all add: pii_step_fail pii_step_ok adds_simps split: sum.splits)

lemma try_block_frame:
  "try_block new_client ui w =
     (fst (try_block new_client ui blank),
      adds w (display (snd (try_block new_client ui blank)))
             (calls (snd (try_block new_client ui blank))))"
proof (cases "new_client (endpoint ui) (api_key ui)")
  case (Inl e)
  then show ?thesis by (simp add: try_block_def adds_def blank_def)
next
  case (Inr client)
  obtain r v where rv: "steps_1_4 client [user_text ui] blank = (r, v)"
    by (cases "steps_1_4 client [user_text ui] blank")
  have at_w: "steps_1_4 client [user_text ui] w = (r, adds w (display v) (calls v))"
    using steps_1_4_frame [of client "[user_text ui]" w] rv by simp
  show ?thesis
  proof (cases r)
    case None
    with Inr rv at_w show ?thesis
      using pii_step_frame [of client "[user_text ui]" "adds w (display v) (calls v)"]
            pii_step_frame [of client "[user_text ui]" v]
      by (simp add: try_block_def Let_def adds_simps)
  next
    case (Some e)
    with Inr rv at_w show ?thesis by (simp add: try_block_def Let_def adds_simps)
  qed
qed

lemma analyze_frame:
  "analyze new_client ui w =
     adds w (display (analyze new_client ui blank)) (calls (analyze new_client ui blank))"
proof -
  obtain r v where rv: "try_block new_client ui blank = (r, v)"
    by (cases "try_block new_client ui blank")
  have f: "\<And>w. try_block new_client ui w = (r, adds w (display v) (calls v))"
    using try_block_frame [of new_client ui] rv by simp
  show ?thesis
    using f [of "adds w [Spinner ''Analyzing...''] []"] f [of "adds blank [Spinner ''Analyzing...''] []"]
    by (cases r) (simp_all add: analyze_def Let_def adds_simps)
qed

lemma col2_frame:
  "col2 new_client ui w =
     adds w (display (col2 new_client ui blank)) (calls (col2 new_client ui blank))"
  using analyze_frame [of new_client ui "adds w [Header ''U+1F3AF AI Analysis'', Button ''U+1F680 Analyze Text''] []"]
        analyze_frame [of new_client ui "adds blank [Header ''U+1F3AF AI Analysis'', Button ''U+1F680 Analyze Text''] []"]
  by (simp add: col2_def Let_def adds_simps)

subsection \<open>Facts about whole runs\<close>

lemma pii_outcomes_Nil: "pii_outcomes [] = []"
  by (simp add: pii_outcomes_def List.map_filter_simps)

lemma pii_outcomes_Cons:
  "pii_outcomes (x # ws) =
     (case pii_outcome_of x of None \<Rightarrow> pii_outcomes ws | Some y \<Rightarrow> y # pii_outcomes ws)"
  by (cases "pii_outcome_of x") (simp_all add: pii_outcomes_def List.map_filter_simps)

lemma pii_outcomes_append: "pii_outcomes (ws @ ws') = pii_outcomes ws @ pii_outcomes ws'"
  by (simp add: pii_outcomes_def List.map_filter_def)

lemmas pii_outcomes_simps =
  pii_outcomes_Nil pii_outcomes_Cons pii_outcomes_append pii_outcome_of_def

lemma steps_1_4_quiet: "quiet (display (snd (steps_1_4 client d blank)))"
proof (cases "first_result (analyze_sentiment client d)")
  case (Inl e)
  then show ?thesis by (simp add: steps_1_4_def step_eqs adds_simps quiet_def pii_outcomes_simps)
next
  case r1: (Inr r1)
  show ?thesis
  proof (cases "first_result (extract_key_phrases client d)")
    case (Inl e)
    with r1 show ?thesis by (simp add: steps_1_4_def step_eqs adds_simps quiet_def pii_outcomes_simps)
  next
    case r2: (Inr r2)
    show ?thesis
    proof (cases "first_result (detect_language client d)")
      case (Inl e)
      with r1 r2 show ?thesis by (simp add: steps_1_4_def step_eqs adds_simps quiet_def pii_outcomes_simps)
    next
      case r3: (Inr r3)
      show ?thesis
      proof (cases "first_result (recognize_entities client d)")
        case (Inl e)
        with r1 r2 r3 show ?thesis by (simp add: steps_1_4_def step_eqs adds_simps quiet_def pii_outcomes_simps)
      next
        case (Inr r4)
        with r1 r2 r3 show ?thesis by (simp add: steps_1_4_def step_eqs adds_simps quiet_def pii_outcomes_simps)
      qed
    qed
  qed
qed

lemma steps_1_4_raises:
  assumes "n < 4"
    and "step_failures client d ! n = Some e"
    and "take n (step_failures client d) = replicate n None"
  shows "fst (steps_1_4 client d blank) = Some e"
    and "calls (snd (steps_1_4 client d blank)) = take (Suc n) (steps_1_4_calls d)"
proof -
  from \<open>n < 4\<close> consider "n = 0" | "n = Suc 0" | "n = Suc (Suc 0)" | "n = Suc (Suc (Suc 0))"
    by linarith
  then have "fst (steps_1_4 client d blank) = Some e
      \<and> calls (snd (steps_1_4 client d blank)) = take (Suc n) (steps_1_4_calls d)"
  proof cases
    case 1
    with assms have "first_result (analyze_sentiment client d) = Inl e"
      by (simp add: step_failures_def raised_Some)
    with 1 show ?thesis
      by (simp add: steps_1_4_def step_eqs adds_simps steps_1_4_calls_def)
  next
    case 2
    with assms obtain r1 where
      "first_result (analyze_sentiment client d) = Inr r1"
      "first_result (extract_key_phrases client d) = Inl e"
      by (auto simp: step_failures_def dest!: raised_Some raised_None)
    with 2 show ?thesis
      by (simp add: steps_1_4_def step_eqs adds_simps steps_1_4_calls_def)
  next
    case 3
    with assms obtain r1 r2 where
      "first_result (analyze_sentiment client d) = Inr r1"
      "first_result (extract_key_phrases client d) = Inr r2"
      "first_result (detect_language client d) = Inl e"
      by (auto simp: step_failures_def dest!: raised_Some raised_None)
    with 3 show ?thesis
      by (simp add: steps_1_4_def step_eqs adds_simps steps_1_4_calls_def)
  next
    case 4
    with assms obtain r1 r2 r3 where
      "first_result (analyze_sentiment client d) = Inr r1"
      "first_result (extract_key_phrases client d) = Inr r2"
      "first_result (detect_language client d) = Inr r3"
      "first_result (recognize_entities client d) = Inl e"
      by (auto simp: step_failures_def dest!: raised_Some raised_None)
    with 4 show ?thesis
      by (simp add: steps_1_4_def step_eqs adds_simps steps_1_4_calls_def)
  qed
  then show "fst (steps_1_4 client d blank) = Some e"
    and "calls (snd (steps_1_4 client d blank)) = take (Suc n) (steps_1_4_calls d)"
    by simp_all
qed

lemma steps_1_4_succeeds:
  assumes "step_failures client d = replicate 4 None"
  shows "fst (steps_1_4 client d blank) = None"
    and "calls (snd (steps_1_4 client d blank)) = steps_1_4_calls d"
proof -
  from assms obtain r1 r2 r3 r4 where
      "first_result (analyze_sentiment client d) = Inr r1"
      "first_result (extract_key_phrases client d) = Inr r2"
      "first_result (detect_language client d) = Inr r3"
      "first_result (recognize_entities client d) = Inr r4"
    by (auto simp: step_failures_def numeral_eq_Suc dest!: raised_None)
  then show "fst (steps_1_4 client d blank) = None"
    and "calls (snd (steps_1_4 client d blank)) = steps_1_4_calls d"
    by (simp_all add: steps_1_4_def step_eqs adds_simps steps_1_4_calls_def)
qed

lemma analyze_raised:
  assumes "new_client (endpoint ui) (api_key ui) = Inr client"
    and "fst (steps_1_4 client [user_text ui] blank) = Some e"
  shows "analyze new_client ui w =
           adds w (Spinner ''Analyzing...'' # display (snd (steps_1_4 client [user_text ui] blank))
                     @ [Error [Lit (''U+274C Error: '' @ str_exn e)],
                        Info [Lit ''U+1F4A1 Make sure your credentials are correct'']])
                  (calls (snd (steps_1_4 client [user_text ui] blank)))"
proof -
  obtain v where v: "steps_1_4 client [user_text ui] blank = (Some e, v)"
    using assms(2) by (cases "steps_1_4 client [user_text ui] blank") simp
  have "steps_1_4 client [user_text ui] (adds w [Spinner ''Analyzing...''] [])
          = (Some e, adds w (Spinner ''Analyzing...'' # display v) (calls v))"
    using steps_1_4_frame [of client "[user_text ui]" "adds w [Spinner ''Analyzing...''] []"] v
    by (simp add: adds_simps)
  with assms(1) v show ?thesis
    by (simp add: analyze_def try_block_def Let_def adds_simps)
qed

lemma analyze_passed:
  assumes "new_client (endpoint ui) (api_key ui) = Inr client"
    and "fst (steps_1_4 client [user_text ui] blank) = None"
  shows "analyze new_client ui w =
           adds w (Spinner ''Analyzing...'' # display (snd (steps_1_4 client [user_text ui] blank))
                     @ display (pii_step client [user_text ui] blank))
                  (calls (snd (steps_1_4 client [user_text ui] blank))
                     @ calls (pii_step client [user_text ui] blank))"
proof -
  obtain v where v: "steps_1_4 client [user_text ui] blank = (None, v)"
    using assms(2) by (cases "steps_1_4 client [user_text ui] blank") simp
  have "steps_1_4 client [user_text ui] (adds w [Spinner ''Analyzing...''] [])
          = (None, adds w (Spinner ''Analyzing...'' # display v) (calls v))"
    using steps_1_4_frame [of client "[user_text ui]" "adds w [Spinner ''Analyzing...''] []"] v
    by (simp add: adds_simps)
  with assms(1) v show ?thesis
    using pii_step_frame [of client "[user_text ui]" "adds w (Spinner ''Analyzing...'' # display v) (calls v)"]
    by (simp add: analyze_def try_block_def Let_def adds_simps)
qed

lemma first_result_Inl: "first_result (Inl e) = Inl e"
  by (simp add: first_result_def)

lemma pii_step_quiet_fatal: "filter is_fatal (display (pii_step client d blank)) = []"
  by (cases "first_result (recognize_pii_entities client d)")
     (simp_all add: pii_step_fail pii_step_ok adds_simps split: sum.splits)

lemma pii_step_calls: "calls (pii_step client d blank) = [RecognizePiiEntities d]"
  by (cases "first_result (recognize_pii_entities client d)")
     (simp_all add: pii_step_fail pii_step_ok adds_simps split: sum.splits)

lemma pii_step_unavailable:
  assumes "first_result (recognize_pii_entities client d) = Inl e"
  shows "display (pii_step client d blank) =
           [Subheader ''U+1F512 Personal Information (PII)'',
            Info [Lit ''PII detection not available for this language'']]"
  using assms by (simp add: pii_step_fail adds_simps)

lemma analyze_pii_unavailable:
  assumes nc: "new_client (endpoint ui) (api_key ui) = Inr client"
    and ok: "step_failures client [user_text ui] = replicate 4 None"
    and pii: "first_result (recognize_pii_entities client [user_text ui]) = Inl e"
  shows "analyze new_client ui w =
           adds w (Spinner ''Analyzing...'' # display (snd (steps_1_4 client [user_text ui] blank))
                     @ [Subheader ''U+1F512 Personal Information (PII)'',
                        Info [Lit ''PII detection not available for this language'']])
                  (five_calls [user_text ui])"
  using analyze_passed [of new_client ui client w] nc steps_1_4_succeeds [OF ok]
        pii_step_unavailable [OF pii] pii_step_calls [of client "[user_text ui]"]
  by (simp add: five_calls_def)

lemma pii_step_masked:
  assumes "first_result (recognize_pii_entities client d) = Inr r"
    and "fst (pii_try client d blank) = Some e"
  shows "pii_entities r \<noteq> []"
    and "last (display (pii_step client d blank))
           = Info [Lit ''PII detection not available for this language'']"
    and "pii_outcomes (display (pii_step client d blank))
           = [Detected (length (pii_entities r)), Unavailable]"
proof -
  from assms have a: "pii_entities r \<noteq> []"
    and b: "pii_rows (pii_entities r) [] = Inl e
          \<or> (\<exists>pii_data. pii_rows (pii_entities r) [] = Inr pii_data) \<and> redacted_text r = Inl e"
    by (simp_all add: pii_try_raises)
  show "pii_entities r \<noteq> []" by (rule a)
  from b show "last (display (pii_step client d blank))
           = Info [Lit ''PII detection not available for this language'']"
    using a by (auto simp: pii_step_ok [OF assms(1)] adds_simps)
  from b show "pii_outcomes (display (pii_step client d blank))
           = [Detected (length (pii_entities r)), Unavailable]"
    using a by (auto simp: pii_step_ok [OF assms(1)] adds_simps pii_outcomes_simps)
qed

lemma steps_1_4_calls_prefix:
  "prefix (calls (snd (steps_1_4 client d blank))) (steps_1_4_calls d)
   \<and> (fst (steps_1_4 client d blank) = None \<longrightarrow>
        calls (snd (steps_1_4 client d blank)) = steps_1_4_calls d)"
proof (cases "first_result (analyze_sentiment client d)")
  case (Inl e)
  then show ?thesis by (simp add: steps_1_4_def step_eqs adds_simps steps_1_4_calls_def)
next
  case r1: (Inr r1)
  show ?thesis
  proof (cases "first_result (extract_key_phrases client d)")
    case (Inl e)
    with r1 show ?thesis by (simp add: steps_1_4_def step_eqs adds_simps steps_1_4_calls_def)
  next
    case r2: (Inr r2)
    show ?thesis
    proof (cases "first_result (detect_language client d)")
      case (Inl e)
      with r1 r2 show ?thesis by (simp add: steps_1_4_def step_eqs adds_simps steps_1_4_calls_def)
    next
      case r3: (Inr r3)
      show ?thesis
      proof (cases "first_result (recognize_entities client d)")
        case (Inl e)
        with r1 r2 r3 show ?thesis by (simp add: steps_1_4_def step_eqs adds_simps steps_1_4_calls_def)
      next
        case (Inr r4)
        with r1 r2 r3 show ?thesis by (simp add: steps_1_4_def step_eqs adds_simps steps_1_4_calls_def)
      qed
    qed
  qed
qed

lemma analyze_no_client:
  assumes "new_client (endpoint ui) (api_key ui) = Inl e"
  shows "analyze new_client ui w =
           adds w [Spinner ''Analyzing...'',
                   Error [Lit (''U+274C Error: '' @ str_exn e)],
                   Info [Lit ''U+1F4A1 Make sure your credentials are correct'']] []"
  using assms by (simp add: analyze_def try_block_def Let_def adds_simps)

lemma batch_five_calls: "c \<in> set (five_calls d) \<Longrightarrow> batch c = d"
  by (auto simp: five_calls_def steps_1_4_calls_def)

lemma analyze_calls_prefix: "prefix (calls (analyze new_client ui blank)) (five_calls [user_text ui])"
proof (cases "new_client (endpoint ui) (api_key ui)")
  case (Inl e)
  then show ?thesis by (simp add: analyze_no_client adds_simps)
next
  case (Inr client)
  show ?thesis
  proof (cases "fst (steps_1_4 client [user_text ui] blank)")
    case None
    with Inr show ?thesis
      using analyze_passed [of new_client ui client blank]
            steps_1_4_calls_prefix [of client "[user_text ui]"]
            pii_step_calls [of client "[user_text ui]"]
      by (simp add: adds_simps five_calls_def)
  next
    case (Some e)
    with Inr show ?thesis
      using analyze_raised [of new_client ui client e blank]
            steps_1_4_calls_prefix [of client "[user_text ui]"]
      by (simp add: adds_simps five_calls_def prefix_prefix)
  qed
qed

lemma analyze_shows_spinner:
  "\<exists>ws. display (analyze new_client ui w) = display w @ Spinner ''Analyzing...'' # ws"
proof -
  obtain r v where rv: "try_block new_client ui blank = (r, v)"
    by (cases "try_block new_client ui blank")
  have "try_block new_client ui (adds w [Spinner ''Analyzing...''] [])
          = (r, adds w (Spinner ''Analyzing...'' # display v) (calls v))"
    using try_block_frame [of new_client ui "adds w [Spinner ''Analyzing...''] []"] rv
    by (simp add: adds_simps)
  then show ?thesis
    by (cases r) (simp_all add: analyze_def Let_def adds_simps)
qed

lemmas demo_defs =
  always_def demo_ui_def healthy_def step_failures_def first_result_def raised_def

lemma analyze_success_display:
  assumes nc: "new_client (endpoint ui) (api_key ui) = Inr client"
    and ok: "step_failures client [user_text ui] = replicate 4 None"
  shows "display (analyze new_client ui w) =
           display w @ Spinner ''Analyzing...''
             # display (snd (sentiment_step client [user_text ui] blank))
             @ display (snd (key_phrases_step client [user_text ui] blank))
             @ display (snd (language_step client [user_text ui] blank))
             @ display (snd (entities_step client [user_text ui] blank))
             @ display (pii_step client [user_text ui] blank)"
proof -
  from ok obtain r1 r2 r3 r4 where
      "first_result (analyze_sentiment client [user_text ui]) = Inr r1"
      "first_result (extract_key_phrases client [user_text ui]) = Inr r2"
      "first_result (detect_language client [user_text ui]) = Inr r3"
      "first_result (recognize_entities client [user_text ui]) = Inr r4"
    by (auto simp: step_failures_def numeral_eq_Suc dest!: raised_None)
  then have "display (snd (steps_1_4 client [user_text ui] blank)) =
             display (snd (sentiment_step client [user_text ui] blank))
             @ display (snd (key_phrases_step client [user_text ui] blank))
             @ display (snd (language_step client [user_text ui] blank))
             @ display (snd (entities_step client [user_text ui] blank))"
    by (simp add: steps_1_4_def step_eqs adds_simps)
  then show ?thesis
    using analyze_passed [of new_client ui client w] nc steps_1_4_succeeds(1) [OF ok]
    by (simp add: adds_simps)
qed

lemma upper_unknown: "upper ''unknown'' = ''UNKNOWN''"
  by (simp add: upper_def upper_char_def)

lemma upper_positive: "upper ''positive'' = ''POSITIVE''"
  by (simp add: upper_def upper_char_def)

lemma odd_first_result:
  "first_result (analyze_sentiment odd_sentiment [user_text demo_ui]) = Inr odd_result"
  by (simp add: odd_sentiment_def first_result_def)

lemma odd_steps_pass: "step_failures odd_sentiment [user_text demo_ui] = replicate 4 None"
  by (simp add: demo_defs odd_sentiment_def numeral_eq_Suc)

lemma analyze_passed_no_fatal:
  assumes "new_client (endpoint ui) (api_key ui) = Inr client"
    and "step_failures client [user_text ui] = replicate 4 None"
  shows "filter is_fatal (display (analyze new_client ui blank)) = []"
  using analyze_passed [of new_client ui client blank] assms(1) steps_1_4_succeeds(1) [OF assms(2)]
        steps_1_4_quiet [of client "[user_text ui]"] pii_step_quiet_fatal [of client "[user_text ui]"]
  by (simp add: adds_simps quiet_def)

lemmas prog_defs =
  ret_def raise_def bind_def seq_def lift_def try_except_def get_def assign_def emit_def
  invoke_def index0_def attrs_def

lemma sentiment_sim:
  assumes "v_client (vars c) = Some svc" and "v_documents (vars c) = Some d"
  shows "sim sentiment_block sentiment_step c svc d"
proof (cases "analyze_sentiment (answers svc (hidden c)) d")
  case (Inl e)
  with assms show ?thesis
    by (simp add: sim_def to_sum_def sentiment_block_def sentiment_step_def first_result_def
        Let_def prog_defs)
next
  case (Inr docs)
  show ?thesis
  proof (cases docs)
    case Nil
    with Inr assms show ?thesis
      by (simp add: sim_def to_sum_def sentiment_block_def sentiment_step_def first_result_def
          Let_def prog_defs)
  next
    case (Cons x rest)
    with Inr assms show ?thesis
      by (cases x)
         (simp_all add: sim_def to_sum_def sentiment_block_def sentiment_step_def first_result_def
            Let_def prog_defs)
  qed
qed

lemma key_phrases_sim:
  assumes "v_client (vars c) = Some svc" and "v_documents (vars c) = Some d"
  shows "sim key_phrases_block key_phrases_step c svc d"
proof (cases "extract_key_phrases (answers svc (hidden c)) d")
  case (Inl e)
  with assms show ?thesis
    by (simp add: sim_def to_sum_def key_phrases_block_def key_phrases_step_def first_result_def
        Let_def prog_defs)
next
  case (Inr docs)
  show ?thesis
  proof (cases docs)
    case Nil
    with Inr assms show ?thesis
      by (simp add: sim_def to_sum_def key_phrases_block_def key_phrases_step_def first_result_def
          Let_def prog_defs)
  next
    case (Cons x rest)
    with Inr assms show ?thesis
      by (cases x)
         (simp_all add: sim_def to_sum_def key_phrases_block_def key_phrases_step_def first_result_def
            Let_def prog_defs)
  qed
qed

lemma language_sim:
  assumes "v_client (vars c) = Some svc" and "v_documents (vars c) = Some d"
  shows "sim language_block language_step c svc d"
proof (cases "detect_language (answers svc (hidden c)) d")
  case (Inl e)
  with assms show ?thesis
    by (simp add: sim_def to_sum_def language_block_def language_step_def first_result_def
        Let_def prog_defs)
next
  case (Inr docs)
  show ?thesis
  proof (cases docs)
    case Nil
    with Inr assms show ?thesis
      by (simp add: sim_def to_sum_def language_block_def language_step_def first_result_def
          Let_def prog_defs)
  next
    case (Cons x rest)
    with Inr assms show ?thesis
      by (cases x)
         (simp_all add: sim_def to_sum_def language_block_def language_step_def first_result_def
            Let_def prog_defs)
  qed
qed

lemma bind_alt:
  "bind m f c = (case fst (m c) of Inl e \<Rightarrow> (Inl e, snd (m c)) | Inr x \<Rightarrow> f x (snd (m c)))"
  by (cases "m c") (auto simp: bind_def split: sum.splits)

lemma try_except_alt:
  "try_except m h c = (case fst (m c) of Inl e \<Rightarrow> h e (snd (m c)) | Inr x \<Rightarrow> (Inr x, snd (m c)))"
  by (cases "m c") (auto simp: try_except_def split: sum.splits)

lemmas prog_alt_defs =
  ret_def raise_def bind_alt seq_def lift_def try_except_alt get_def assign_def emit_def
  invoke_def index0_def attrs_def

lemma entity_body_run:
  "v_entity_data (vars c) = Some acc \<Longrightarrow>
   entity_body x c =
     (Inr (), c\<lparr>vars := (vars c)\<lparr>v_entity := Some (AnEntity x),
                                 v_entity_data := Some (acc @ [entity_row x])\<rparr>\<rparr>)"
  by (simp add: entity_body_def prog_defs as_entity_def)

lemma entity_loop_run:
  "v_entity_data (vars c) = Some acc \<Longrightarrow>
   fst (entity_loop xs c) = Inr ()
   \<and> v_entity_data (vars (snd (entity_loop xs c))) = Some (acc @ map entity_row xs)
   \<and> page (snd (entity_loop xs c)) = page c
   \<and> hidden (snd (entity_loop xs c)) = hidden c
   \<and> v_client (vars (snd (entity_loop xs c))) = v_client (vars c)
   \<and> v_documents (vars (snd (entity_loop xs c))) = v_documents (vars c)"
proof (induction xs arbitrary: c acc)
  case Nil
  then show ?case by simp
next
  case (Cons x xs)
  let ?c' = "c\<lparr>vars := (vars c)\<lparr>v_entity := Some (AnEntity x),
                                 v_entity_data := Some (acc @ [entity_row x])\<rparr>\<rparr>"
  have "v_entity_data (vars ?c') = Some (acc @ [entity_row x])" by simp
  from Cons.IH [OF this] entity_body_run [OF Cons.prems, of x]
  show ?case by simp
qed

lemma pii_body_run:
  "v_pii_data (vars c) = Some acc \<Longrightarrow>
   pii_body x c =
     (case x of
        Result p \<Rightarrow>
          (Inr (), c\<lparr>vars := (vars c)\<lparr>v_entity := Some (APiiEntity x),
                                      v_pii_data := Some (acc @ [pii_row p])\<rparr>\<rparr>)
      | NonResult e \<Rightarrow> (Inl e, c\<lparr>vars := (vars c)\<lparr>v_entity := Some (APiiEntity x)\<rparr>\<rparr>))"
  by (cases x) (simp_all add: pii_body_def prog_defs as_pii_entity_def)

lemma pii_loop_run:
  "v_pii_data (vars c) = Some acc \<Longrightarrow>
   (case pii_rows xs acc of
      Inl e \<Rightarrow> fst (pii_loop xs c) = Inl e
    | Inr rows \<Rightarrow> fst (pii_loop xs c) = Inr ()
                 \<and> v_pii_data (vars (snd (pii_loop xs c))) = Some rows)
   \<and> page (snd (pii_loop xs c)) = page c
   \<and> hidden (snd (pii_loop xs c)) = hidden c
   \<and> v_client (vars (snd (pii_loop xs c))) = v_client (vars c)
   \<and> v_documents (vars (snd (pii_loop xs c))) = v_documents (vars c)
   \<and> v_pii_result (vars (snd (pii_loop xs c))) = v_pii_result (vars c)"
proof (induction xs arbitrary: c acc)
  case Nil
  then show ?case by simp
next
  case (Cons x xs)
  show ?case
  proof (cases x)
    case (Result p)
    let ?c' = "c\<lparr>vars := (vars c)\<lparr>v_entity := Some (APiiEntity x),
                                      v_pii_data := Some (acc @ [pii_row p])\<rparr>\<rparr>"
    have "v_pii_data (vars ?c') = Some (acc @ [pii_row p])" by simp
    from Cons.IH [OF this] pii_body_run [OF Cons.prems, of x] Result
    show ?thesis by (auto split: sum.splits)
  next
    case (NonResult e)
    with pii_body_run [OF Cons.prems, of x] show ?thesis by simp
  qed
qed

lemma entities_sim:
  assumes "v_client (vars c) = Some svc" and "v_documents (vars c) = Some d"
  shows "sim entities_block entities_step c svc d"
proof (cases "recognize_entities (answers svc (hidden c)) d")
  case (Inl e)
  with assms show ?thesis
    by (simp add: sim_def to_sum_def entities_block_def entities_step_def first_result_def
        Let_def prog_defs)
next
  case (Inr docs)
  show ?thesis
  proof (cases docs)
    case Nil
    with Inr assms show ?thesis
      by (simp add: sim_def to_sum_def entities_block_def entities_step_def first_result_def
          Let_def prog_defs)
  next
    case (Cons x rest)
    show ?thesis
    proof (cases x)
      case (NonResult e)
      with Cons Inr assms show ?thesis
        by (simp add: sim_def to_sum_def entities_block_def entities_step_def first_result_def
            Let_def prog_defs)
    next
      case (Result r)
      have loop: "\<And>c. v_entity_data (vars c) = Some [] \<Longrightarrow>
          fst (entity_loop (take 10 (entities r)) c) = Inr ()
          \<and> v_entity_data (vars (snd (entity_loop (take 10 (entities r)) c)))
              = Some (map entity_row (take 10 (entities r)))
          \<and> page (snd (entity_loop (take 10 (entities r)) c)) = page c
          \<and> hidden (snd (entity_loop (take 10 (entities r)) c)) = hidden c
          \<and> v_client (vars (snd (entity_loop (take 10 (entities r)) c))) = v_client (vars c)
          \<and> v_documents (vars (snd (entity_loop (take 10 (entities r)) c))) = v_documents (vars c)"
        using entity_loop_run [where acc = "[]" and xs = "take 10 (entities r)"] by simp
      from Result Cons Inr assms show ?thesis
        by (simp add: sim_def to_sum_def entities_block_def entities_step_def first_result_def
            Let_def prog_alt_defs loop)
    qed
  qed
qed

lemma pii_sim:
  assumes "v_client (vars c) = Some svc" and "v_documents (vars c) = Some d"
  shows "sim pii_block (\<lambda>client d w. (None, pii_step client d w)) c svc d"
proof (cases "recognize_pii_entities (answers svc (hidden c)) d")
  case (Inl e)
  with assms show ?thesis
    by (simp add: sim_def to_sum_def pii_block_def pii_step_def pii_try_def first_result_def
        Let_def prog_defs)
next
  case (Inr docs)
  show ?thesis
  proof (cases docs)
    case Nil
    with Inr assms show ?thesis
      by (simp add: sim_def to_sum_def pii_block_def pii_step_def pii_try_def first_result_def
          Let_def prog_defs)
  next
    case (Cons x rest)
    show ?thesis
    proof (cases x)
      case (NonResult e)
      with Cons Inr assms show ?thesis
        by (simp add: sim_def to_sum_def pii_block_def pii_step_def pii_try_def first_result_def
            Let_def prog_defs)
    next
      case (Result r)
      show ?thesis
      proof (cases "pii_rows (pii_entities r) []")
        case (Inl e)
        have loop: "\<And>c. v_pii_data (vars c) = Some [] \<Longrightarrow>
            fst (pii_loop (pii_entities r) c) = Inl e
            \<and> page (snd (pii_loop (pii_entities r) c)) = page c
            \<and> hidden (snd (pii_loop (pii_entities r) c)) = hidden c
            \<and> v_client (vars (snd (pii_loop (pii_entities r) c))) = v_client (vars c)
            \<and> v_documents (vars (snd (pii_loop (pii_entities r) c))) = v_documents (vars c)
            \<and> v_pii_result (vars (snd (pii_loop (pii_entities r) c))) = v_pii_result (vars c)"
          using pii_loop_run [where acc = "[]" and xs = "pii_entities r"] Inl by simp
        from Inl Result Cons Inr assms show ?thesis
          by (simp add: sim_def to_sum_def pii_block_def pii_step_def pii_try_def first_result_def
              Let_def prog_alt_defs loop)
      next
        case rows: (Inr rows)
        have loop: "\<And>c. v_pii_data (vars c) = Some [] \<Longrightarrow>
            fst (pii_loop (pii_entities r) c) = Inr ()
            \<and> v_pii_data (vars (snd (pii_loop (pii_entities r) c))) = Some rows
            \<and> page (snd (pii_loop (pii_entities r) c)) = page c
            \<and> hidden (snd (pii_loop (pii_entities r) c)) = hidden c
            \<and> v_client (vars (snd (pii_loop (pii_entities r) c))) = v_client (vars c)
            \<and> v_documents (vars (snd (pii_loop (pii_entities r) c))) = v_documents (vars c)
            \<and> v_pii_result (vars (snd (pii_loop (pii_entities r) c))) = v_pii_result (vars c)"
          using pii_loop_run [where acc = "[]" and xs = "pii_entities r"] rows by simp
        from rows Result Cons Inr assms show ?thesis
          by (cases "redacted_text r")
             (simp_all add: sim_def to_sum_def pii_block_def pii_step_def pii_try_def
                first_result_def Let_def prog_alt_defs loop)
      qed
    qed
  qed
qed

lemma seq_sim:
  assumes p: "sim p f c svc d"
    and det: "deterministic svc"
    and q: "fst (p c) = Inr () \<Longrightarrow> sim q g (snd (p c)) svc d"
  shows "sim (seq p q) (thn f g) c svc d"
proof -
  obtain x w' where fw: "f (answers svc (hidden c)) d (page c) = (x, w')"
    by (cases "f (answers svc (hidden c)) d (page c)")
  show ?thesis
  proof (cases x)
    case (Some e)
    with p fw show ?thesis
      by (simp add: sim_def thn_def seq_def bind_alt to_sum_def)
  next
    case None
    with p fw have ok: "fst (p c) = Inr ()"
      by (simp add: sim_def to_sum_def)
    from det have same: "answers svc (hidden (snd (p c))) = answers svc (hidden c)"
      by (simp add: deterministic_def)
    have t: "to_sum None = Inr ()" by (simp add: to_sum_def)
    from q [OF ok] p None fw ok same show ?thesis
      by (simp add: sim_def thn_def seq_def bind_alt t)
  qed
qed

lemma sim_bound:
  "sim p f c svc d \<Longrightarrow>
   v_client (vars (snd (p c))) = Some svc \<and> v_documents (vars (snd (p c))) = Some d"
  by (simp add: sim_def)

lemma five_blocks_sim:
  assumes cl: "v_client (vars c) = Some svc" and docs: "v_documents (vars c) = Some d"
    and det: "deterministic svc"
  shows "sim five_blocks
           (thn sentiment_step (thn key_phrases_step (thn language_step
              (thn entities_step (\<lambda>client d w. (None, pii_step client d w))))))
           c svc d"
  unfolding five_blocks_def
proof (rule seq_sim [OF sentiment_sim [OF cl docs] det])
  let ?c1 = "snd (sentiment_block c)"
  note b1 = sim_bound [OF sentiment_sim [OF cl docs]]
  show "sim (seq key_phrases_block (seq language_block (seq entities_block pii_block)))
          (thn key_phrases_step (thn language_step
              (thn entities_step (\<lambda>client d w. (None, pii_step client d w)))))
          ?c1 svc d"
  proof (rule seq_sim [OF key_phrases_sim det])
    show k1: "v_client (vars ?c1) = Some svc" using b1 by simp
    show k2: "v_documents (vars ?c1) = Some d" using b1 by simp
    let ?c2 = "snd (key_phrases_block ?c1)"
    note b2 = sim_bound [OF key_phrases_sim [OF k1 k2]]
    show "sim (seq language_block (seq entities_block pii_block))
            (thn language_step (thn entities_step (\<lambda>client d w. (None, pii_step client d w))))
            ?c2 svc d"
    proof (rule seq_sim [OF language_sim det])
      show l1: "v_client (vars ?c2) = Some svc" using b2 by simp
      show l2: "v_documents (vars ?c2) = Some d" using b2 by simp
      let ?c3 = "snd (language_block ?c2)"
      note b3 = sim_bound [OF language_sim [OF l1 l2]]
      show "sim (seq entities_block pii_block)
              (thn entities_step (\<lambda>client d w. (None, pii_step client d w)))
              ?c3 svc d"
      proof (rule seq_sim [OF entities_sim det])
        show e1: "v_client (vars ?c3) = Some svc" using b3 by simp
        show e2: "v_documents (vars ?c3) = Some d" using b3 by simp
        let ?c4 = "snd (entities_block ?c3)"
        note b4 = sim_bound [OF entities_sim [OF e1 e2]]
        show "sim pii_block (\<lambda>client d w. (None, pii_step client d w)) ?c4 svc d"
          using b4 by (intro pii_sim) simp_all
      qed
    qed
  qed
qed

lemma thn_chain:
  "thn sentiment_step (thn key_phrases_step (thn language_step
      (thn entities_step (\<lambda>client d w. (None, pii_step client d w))))) client d w
   = (case steps_1_4 client d w of
        (Some e, w1) \<Rightarrow> (Some e, w1)
      | (None, w1) \<Rightarrow> (None, pii_step client d w1))"
  by (simp add: thn_def steps_1_4_def split: prod.splits option.splits)

lemma cycle_refines_analyze:
  assumes det: "\<forall>svc. new_service (endpoint ui) (api_key ui) = Inr svc \<longrightarrow> deterministic svc"
  shows "page (run_cycle new_service ui c) = analyze (answering_at new_service r) ui (page c)"
proof (cases "new_service (endpoint ui) (api_key ui)")
  case (Inl e)
  then show ?thesis
    by (simp add: run_cycle_def cycle_def prog_defs analyze_def try_block_def answering_at_def Let_def)
next
  case (Inr svc)
  with det have d: "deterministic svc" by simp
  let ?c1 = "c\<lparr>page := st (Spinner ''Analyzing...'') (page c),
                vars := (vars c)\<lparr>v_client := Some svc, v_documents := Some [user_text ui]\<rparr>\<rparr>"
  have "sim five_blocks
           (thn sentiment_step (thn key_phrases_step (thn language_step
              (thn entities_step (\<lambda>client d w. (None, pii_step client d w))))))
           ?c1 svc [user_text ui]"
    by (rule five_blocks_sim) (simp_all add: d)
  then have s: "fst (five_blocks ?c1)
        = to_sum (fst (case steps_1_4 (answers svc (hidden c)) [user_text ui]
                              (st (Spinner ''Analyzing...'') (page c)) of
                         (Some e, w1) \<Rightarrow> (Some e, w1)
                       | (None, w1) \<Rightarrow> (None, pii_step (answers svc (hidden c)) [user_text ui] w1)))"
    and p: "page (snd (five_blocks ?c1))
        = snd (case steps_1_4 (answers svc (hidden c)) [user_text ui]
                              (st (Spinner ''Analyzing...'') (page c)) of
                         (Some e, w1) \<Rightarrow> (Some e, w1)
                       | (None, w1) \<Rightarrow> (None, pii_step (answers svc (hidden c)) [user_text ui] w1))"
    by (simp_all add: sim_def thn_chain)
  from d have same: "answers svc r = answers svc (hidden c)"
    by (simp add: deterministic_def)
  have c1: "c\<lparr>page := st (Spinner ''Analyzing...'') (page c),
              vars := (vars c)\<lparr>v_client := Some svc\<rparr>,
              vars := (vars c)\<lparr>v_client := Some svc, v_documents := Some [user_text ui]\<rparr>\<rparr> = ?c1"
    by simp
  show ?thesis
    using Inr s p same
    by (simp add: run_cycle_def cycle_def prog_alt_defs analyze_def try_block_def answering_at_def
        Let_def to_sum_def split: prod.splits option.splits)
qed

lemma deterministic_steady: "deterministic (steady client)"
  by (simp add: deterministic_def steady_def)

lemma answering_at_steady: "answering_at (always_service (steady client)) r = always client"
  by (rule ext, rule ext) (simp add: answering_at_def always_service_def always_def steady_def)

section \<open>The claims\<close>

subsection \<open>C1: a failure in steps 1 to 4 is fatal and ends the cycle\<close>

text \<open>
  Claim C1. Let the client be built, and let operation \<open>n + 1\<close> of the first four be the first
  that raises, with exception \<open>e\<close> (from the remote call or from reading its response).
  Then the cycle issues the operations up to that one and no other, the PII operation is
  not among them, the page shows exactly one fatal error, the message of \<open>e\<close> followed by the
  credentials hint as its last two widgets, the header of the PII step is not shown, and
  no PII outcome is added to the page.
\<close>

theorem steps_1_4_failure_is_fatal:
  assumes "new_client (endpoint ui) (api_key ui) = Inr client"
    and "n < 4"
    and "step_failures client [user_text ui] ! n = Some e"
    and "take n (step_failures client [user_text ui]) = replicate n None"
  shows "calls (analyze new_client ui w) = calls w @ take (Suc n) (steps_1_4_calls [user_text ui])
       \<and> RecognizePiiEntities [user_text ui] \<notin> set (take (Suc n) (steps_1_4_calls [user_text ui]))
       \<and> filter is_fatal (display (analyze new_client ui w))
           = filter is_fatal (display w) @ [Error [Lit (''U+274C Error: '' @ str_exn e)]]
       \<and> (\<exists>ws. display (analyze new_client ui w)
                 = display w @ ws @ [Error [Lit (''U+274C Error: '' @ str_exn e)],
                                     Info [Lit ''U+1F4A1 Make sure your credentials are correct'']]
               \<and> Subheader ''U+1F512 Personal Information (PII)'' \<notin> set ws)
       \<and> pii_outcomes (display (analyze new_client ui w)) = pii_outcomes (display w)"
proof -
  let ?v = "snd (steps_1_4 client [user_text ui] blank)"
  have eq: "analyze new_client ui w =
           adds w (Spinner ''Analyzing...'' # display ?v
                     @ [Error [Lit (''U+274C Error: '' @ str_exn e)],
                        Info [Lit ''U+1F4A1 Make sure your credentials are correct'']])
                  (take (Suc n) (steps_1_4_calls [user_text ui]))"
    using analyze_raised [of new_client ui client e w] assms(1)
          steps_1_4_raises [OF assms(2-4)]
    by simp
  have q: "quiet (display ?v)" by (rule steps_1_4_quiet)
  have c1: "calls (analyze new_client ui w) = calls w @ take (Suc n) (steps_1_4_calls [user_text ui])"
    by (simp add: eq adds_simps)
  have c2: "RecognizePiiEntities [user_text ui] \<notin> set (take (Suc n) (steps_1_4_calls [user_text ui]))"
    by (auto simp: steps_1_4_calls_def dest: in_set_takeD)
  have c3: "filter is_fatal (display (analyze new_client ui w))
           = filter is_fatal (display w) @ [Error [Lit (''U+274C Error: '' @ str_exn e)]]"
    using q by (simp add: eq adds_simps quiet_def)
  have c4: "\<exists>ws. display (analyze new_client ui w)
                 = display w @ ws @ [Error [Lit (''U+274C Error: '' @ str_exn e)],
                                     Info [Lit ''U+1F4A1 Make sure your credentials are correct'']]
               \<and> Subheader ''U+1F512 Personal Information (PII)'' \<notin> set ws"
    using q by (intro exI [of _ "Spinner ''Analyzing...'' # display ?v"]) (simp add: eq adds_simps quiet_def)
  have c5: "pii_outcomes (display (analyze new_client ui w)) = pii_outcomes (display w)"
    using q by (simp add: eq adds_simps quiet_def pii_outcomes_simps)
  from c1 c2 c3 c4 c5 show ?thesis by blast
qed

text \<open>
  The service whose key-phrase operation is down: the cycle stops after two operations.
\<close>

theorem steps_1_4_failure_is_fatal_witness:
  "always key_phrases_down (endpoint demo_ui) (api_key demo_ui) = Inr key_phrases_down
   \<and> Suc 0 < 4
   \<and> step_failures key_phrases_down [user_text demo_ui] ! Suc 0
       = Some (OtherError ''Service unavailable'')
   \<and> take (Suc 0) (step_failures key_phrases_down [user_text demo_ui]) = replicate (Suc 0) None
   \<and> calls (analyze (always key_phrases_down) demo_ui blank)
       = [AnalyzeSentiment [''I absolutely love this product!''],
          ExtractKeyPhrases [''I absolutely love this product!'']]
   \<and> filter is_fatal (display (analyze (always key_phrases_down) demo_ui blank))
       = [Error [Lit ''U+274C Error: Service unavailable'']]
   \<and> pii_outcomes (display (analyze (always key_phrases_down) demo_ui blank)) = []"
proof -
  have h1: "always key_phrases_down (endpoint demo_ui) (api_key demo_ui) = Inr key_phrases_down"
    by (simp add: always_def)
  have h2: "Suc 0 < 4" by simp
  have h3: "step_failures key_phrases_down [user_text demo_ui] ! Suc 0
       = Some (OtherError ''Service unavailable'')"
    by (simp add: demo_defs key_phrases_down_def)
  have h4: "take (Suc 0) (step_failures key_phrases_down [user_text demo_ui]) = replicate (Suc 0) None"
    by (simp add: demo_defs key_phrases_down_def)
  have u: "user_text demo_ui = ''I absolutely love this product!''"
    by (simp add: demo_ui_def)
  show ?thesis
    using h1 h2 h3 h4
      steps_1_4_failure_is_fatal [of "always key_phrases_down" demo_ui key_phrases_down "Suc 0"
        "OtherError ''Service unavailable''" blank]
    by (simp add: adds_simps steps_1_4_calls_def pii_outcomes_simps u)
qed

subsection \<open>C2: a failure of the PII call is not fatal\<close>

text \<open>
  Claim C2. When steps 1 to 4 succeed and the remote PII call raises, the cycle has issued
  all five operations, shows no fatal error, adds the one PII outcome \<open>Unavailable\<close>, and
  ends the page with the header of the PII step and the message that PII detection is not
  available.
\<close>

theorem pii_failure_is_not_fatal:
  assumes "new_client (endpoint ui) (api_key ui) = Inr client"
    and "step_failures client [user_text ui] = replicate 4 None"
    and "recognize_pii_entities client [user_text ui] = Inl e"
  shows "calls (analyze new_client ui w) = calls w @ five_calls [user_text ui]
       \<and> filter is_fatal (display (analyze new_client ui w)) = filter is_fatal (display w)
       \<and> pii_outcomes (display (analyze new_client ui w)) = pii_outcomes (display w) @ [Unavailable]
       \<and> (\<exists>ws. display (analyze new_client ui w)
                 = display w @ ws @ [Subheader ''U+1F512 Personal Information (PII)'',
                                     Info [Lit ''PII detection not available for this language'']])"
proof -
  let ?v = "snd (steps_1_4 client [user_text ui] blank)"
  have "first_result (recognize_pii_entities client [user_text ui]) = Inl e"
    using assms(3) by (simp add: first_result_Inl)
  then have eq: "analyze new_client ui w =
           adds w (Spinner ''Analyzing...'' # display ?v
                     @ [Subheader ''U+1F512 Personal Information (PII)'',
                        Info [Lit ''PII detection not available for this language'']])
                  (five_calls [user_text ui])"
    using analyze_pii_unavailable [of new_client ui client e w] assms(1,2) by simp
  have q: "quiet (display ?v)" by (rule steps_1_4_quiet)
  have c1: "calls (analyze new_client ui w) = calls w @ five_calls [user_text ui]"
    by (simp add: eq adds_simps)
  have c2: "filter is_fatal (display (analyze new_client ui w)) = filter is_fatal (display w)"
    using q by (simp add: eq adds_simps quiet_def)
  have c3: "pii_outcomes (display (analyze new_client ui w)) = pii_outcomes (display w) @ [Unavailable]"
    using q by (simp add: eq adds_simps quiet_def pii_outcomes_simps)
  have c4: "\<exists>ws. display (analyze new_client ui w)
                 = display w @ ws @ [Subheader ''U+1F512 Personal Information (PII)'',
                                     Info [Lit ''PII detection not available for this language'']]"
    by (intro exI [of _ "Spinner ''Analyzing...'' # display ?v"]) (simp add: eq adds_simps)
  from c1 c2 c3 c4 show ?thesis by blast
qed

text \<open>
  The service whose PII operation raises.
\<close>

theorem pii_failure_is_not_fatal_witness:
  "always pii_down (endpoint demo_ui) (api_key demo_ui) = Inr pii_down
   \<and> step_failures pii_down [user_text demo_ui] = replicate 4 None
   \<and> recognize_pii_entities pii_down [user_text demo_ui] = Inl (OtherError ''Unsupported language'')
   \<and> calls (analyze (always pii_down) demo_ui blank) = five_calls [''I absolutely love this product!'']
   \<and> filter is_fatal (display (analyze (always pii_down) demo_ui blank)) = []
   \<and> pii_outcomes (display (analyze (always pii_down) demo_ui blank)) = [Unavailable]"
proof -
  have h1: "always pii_down (endpoint demo_ui) (api_key demo_ui) = Inr pii_down"
    by (simp add: always_def)
  have h2: "step_failures pii_down [user_text demo_ui] = replicate 4 None"
    by (simp add: demo_defs pii_down_def numeral_eq_Suc)
  have h3: "recognize_pii_entities pii_down [user_text demo_ui] = Inl (OtherError ''Unsupported language'')"
    by (simp add: pii_down_def)
  have u: "user_text demo_ui = ''I absolutely love this product!''"
    by (simp add: demo_ui_def)
  show ?thesis
    using h1 h2 h3
      pii_failure_is_not_fatal [of "always pii_down" demo_ui pii_down
        "OtherError ''Unsupported language''" blank]
    by (simp add: adds_simps pii_outcomes_simps u)
qed

subsection \<open>C3: key phrases and entities are shown capped at ten, in the provider's order\<close>

text \<open>
  Claim C3. In a cycle in which steps 1 to 4 succeed, with \<open>kr\<close> the key-phrase result and
  \<open>er\<close> the entity result, the page is: the spinner, the widgets of the sentiment step, the
  key-phrase section, the widgets of the language step, the entity section, the widgets of
  the PII step. The key-phrase section shows the spans of \<open>take 10 (key_phrases kr)\<close> and the
  entity section the rows of \<open>take 10 (entities er)\<close> (or the message for an empty list):
  lists of at most ten elements that are prefixes of the lists returned.
\<close>

theorem lists_are_capped_at_ten:
  assumes "new_client (endpoint ui) (api_key ui) = Inr client"
    and "step_failures client [user_text ui] = replicate 4 None"
    and "first_result (extract_key_phrases client [user_text ui]) = Inr kr"
    and "first_result (recognize_entities client [user_text ui]) = Inr er"
  shows "display (analyze new_client ui w) =
           display w @ Spinner ''Analyzing...''
             # display (snd (sentiment_step client [user_text ui] blank))
             @ [Subheader ''U+1F511 Key Phrases'',
                if key_phrases kr \<noteq> []
                then Markdown [Lit (str_join '' '' (map phrase_span (take 10 (key_phrases kr))))] True
                else Info [Lit ''No key phrases detected''],
                Markdown [Lit ''---''] False]
             @ display (snd (language_step client [user_text ui] blank))
             @ [Subheader ''U+1F3F7 U+FE0F Named Entities'',
                if entities er \<noteq> []
                then Dataframe (map entity_row (take 10 (entities er)))
                else Info [Lit ''No entities detected''],
                Markdown [Lit ''---''] False]
             @ display (pii_step client [user_text ui] blank)
       \<and> length (take 10 (key_phrases kr)) \<le> 10
       \<and> prefix (take 10 (key_phrases kr)) (key_phrases kr)
       \<and> length (take 10 (entities er)) \<le> 10
       \<and> prefix (take 10 (entities er)) (entities er)"
  using analyze_success_display [of new_client ui client w] assms(1,2)
        key_phrases_step_ok [OF assms(3), of blank] entities_step_ok [OF assms(4), of blank]
  by (simp add: adds_simps take_is_prefix)

text \<open>
  A service that returns twelve key phrases and eleven entities: ten of each are shown.
\<close>

theorem lists_are_capped_at_ten_witness:
  "always long_lists (endpoint demo_ui) (api_key demo_ui) = Inr long_lists
   \<and> step_failures long_lists [user_text demo_ui] = replicate 4 None
   \<and> first_result (extract_key_phrases long_lists [user_text demo_ui])
       = Inr \<lparr>key_phrases = twelve_phrases\<rparr>
   \<and> first_result (recognize_entities long_lists [user_text demo_ui])
       = Inr \<lparr>entities = eleven_entities\<rparr>
   \<and> length twelve_phrases = 12 \<and> length eleven_entities = 11
   \<and> Markdown [Lit (str_join '' '' (map phrase_span
        [''p01'', ''p02'', ''p03'', ''p04'', ''p05'', ''p06'', ''p07'', ''p08'', ''p09'', ''p10'']))] True
       \<in> set (display (analyze (always long_lists) demo_ui blank))
   \<and> Dataframe (map entity_row (take 10 eleven_entities))
       \<in> set (display (analyze (always long_lists) demo_ui blank))
   \<and> length (take 10 eleven_entities) = 10"
proof -
  have h1: "always long_lists (endpoint demo_ui) (api_key demo_ui) = Inr long_lists"
    by (simp add: always_def)
  have h2: "step_failures long_lists [user_text demo_ui] = replicate 4 None"
    by (simp add: demo_defs long_lists_def numeral_eq_Suc)
  have h3: "first_result (extract_key_phrases long_lists [user_text demo_ui])
       = Inr \<lparr>key_phrases = twelve_phrases\<rparr>"
    by (simp add: long_lists_def first_result_def)
  have h4: "first_result (recognize_entities long_lists [user_text demo_ui])
       = Inr \<lparr>entities = eleven_entities\<rparr>"
    by (simp add: long_lists_def first_result_def)
  have l12: "length twelve_phrases = 12" by (simp add: twelve_phrases_def)
  have l11: "length eleven_entities = 11" by (simp add: eleven_entities_def twelve_phrases_def)
  have t: "take 10 twelve_phrases
      = [''p01'', ''p02'', ''p03'', ''p04'', ''p05'', ''p06'', ''p07'', ''p08'', ''p09'', ''p10'']"
    by (simp add: twelve_phrases_def)
  have ne: "twelve_phrases \<noteq> []" "eleven_entities \<noteq> []"
    using l12 l11 by auto
  show ?thesis
    using h1 h2 h3 h4 l12 l11 ne
      lists_are_capped_at_ten [of "always long_lists" demo_ui long_lists
        "\<lparr>key_phrases = twelve_phrases\<rparr>" "\<lparr>entities = eleven_entities\<rparr>" blank]
    by (simp add: adds_simps t)
qed

subsection \<open>C4: the operations issued are a prefix of the fixed sequence of five\<close>

text \<open>
  Claim C4 says that every cycle issues exactly five operations. A cycle whose sentiment
  call is rejected issues one.
\<close>

theorem five_calls_counterexample:
  "calls (analyze (always sentiment_401) demo_ui blank)
     = [AnalyzeSentiment [''I absolutely love this product!'']]
   \<and> calls (analyze (always sentiment_401) demo_ui blank)
     \<noteq> five_calls [''I absolutely love this product!'']
   \<and> length (calls (analyze (always sentiment_401) demo_ui blank)) \<noteq> 5"
proof -
  have h1: "always sentiment_401 (endpoint demo_ui) (api_key demo_ui) = Inr sentiment_401"
    by (simp add: always_def)
  have h3: "step_failures sentiment_401 [user_text demo_ui] ! 0
       = Some (OtherError ''(401) Access denied'')"
    by (simp add: demo_defs sentiment_401_def)
  have u: "user_text demo_ui = ''I absolutely love this product!''"
    by (simp add: demo_ui_def)
  have "calls (analyze (always sentiment_401) demo_ui blank)
     = [AnalyzeSentiment [''I absolutely love this product!'']]"
    using analyze_raised [of "always sentiment_401" demo_ui sentiment_401
            "OtherError ''(401) Access denied''" blank] h1
          steps_1_4_raises [of 0 sentiment_401 "[user_text demo_ui]" "OtherError ''(401) Access denied''"] h3
    by (simp add: adds_simps steps_1_4_calls_def u)
  then show ?thesis by (simp add: five_calls_def steps_1_4_calls_def)
qed

text \<open>
  Claim C4, amended. The operations a cycle issues are a prefix of the sequence sentiment,
  key phrases, language, entities, PII, each on the batch \<^verbatim>\<open>[user_text]\<close> of one document;
  when the client is built and steps 1 to 4 succeed, they are exactly the five.
\<close>

theorem calls_follow_the_fixed_order:
  "(\<exists>cs. calls (analyze new_client ui w) = calls w @ cs
         \<and> prefix cs (five_calls [user_text ui])
         \<and> list_all (\<lambda>c. batch c = [user_text ui] \<and> length (batch c) = 1) cs)
   \<and> (new_client (endpoint ui) (api_key ui) = Inr client
        \<and> step_failures client [user_text ui] = replicate 4 None
      \<longrightarrow> calls (analyze new_client ui w) = calls w @ five_calls [user_text ui])"
proof (intro conjI impI)
  let ?cs = "calls (analyze new_client ui blank)"
  have a: "calls (analyze new_client ui w) = calls w @ ?cs"
    using analyze_frame [of new_client ui w] by (simp add: adds_simps)
  have b: "prefix ?cs (five_calls [user_text ui])" by (rule analyze_calls_prefix)
  then have "set ?cs \<subseteq> set (five_calls [user_text ui])" by (rule set_mono_prefix)
  then have c: "list_all (\<lambda>c. batch c = [user_text ui] \<and> length (batch c) = 1) ?cs"
    by (auto simp: list_all_iff dest!: subsetD batch_five_calls)
  from a b c show "\<exists>cs. calls (analyze new_client ui w) = calls w @ cs
         \<and> prefix cs (five_calls [user_text ui])
         \<and> list_all (\<lambda>c. batch c = [user_text ui] \<and> length (batch c) = 1) cs"
    by blast
next
  assume h: "new_client (endpoint ui) (api_key ui) = Inr client
        \<and> step_failures client [user_text ui] = replicate 4 None"
  then have ok: "step_failures client [user_text ui] = replicate 4 None" by simp
  show "calls (analyze new_client ui w) = calls w @ five_calls [user_text ui]"
    using analyze_passed [of new_client ui client w] h steps_1_4_succeeds [OF ok]
          pii_step_calls [of client "[user_text ui]"]
    by (simp add: adds_simps five_calls_def)
qed

text \<open>
  The healthy service: all five operations, in order.
\<close>

theorem calls_follow_the_fixed_order_witness:
  "always healthy (endpoint demo_ui) (api_key demo_ui) = Inr healthy
   \<and> step_failures healthy [user_text demo_ui] = replicate 4 None
   \<and> calls (analyze (always healthy) demo_ui blank)
       = [AnalyzeSentiment [''I absolutely love this product!''],
          ExtractKeyPhrases [''I absolutely love this product!''],
          DetectLanguage [''I absolutely love this product!''],
          RecognizeEntities [''I absolutely love this product!''],
          RecognizePiiEntities [''I absolutely love this product!'']]"
proof -
  have h1: "always healthy (endpoint demo_ui) (api_key demo_ui) = Inr healthy"
    by (simp add: always_def)
  have h2: "step_failures healthy [user_text demo_ui] = replicate 4 None"
    by (simp add: demo_defs numeral_eq_Suc)
  have u: "user_text demo_ui = ''I absolutely love this product!''"
    by (simp add: demo_ui_def)
  show ?thesis
    using h1 h2 calls_follow_the_fixed_order [of "always healthy" demo_ui blank healthy]
    by (simp add: adds_simps five_calls_def steps_1_4_calls_def u)
qed

subsection \<open>C5: an empty PII list is an outcome of its own\<close>

text \<open>
  Claim C5. When steps 1 to 4 succeed and the PII call returns a result with an empty list
  of entities, the page ends with the message that no personal information was detected:
  the outcome added is \<open>NoPii\<close>, it is not \<open>Unavailable\<close>, and no fatal error is shown.
\<close>

theorem empty_pii_list_is_its_own_outcome:
  assumes "new_client (endpoint ui) (api_key ui) = Inr client"
    and "step_failures client [user_text ui] = replicate 4 None"
    and "recognize_pii_entities client [user_text ui] = Inr (Result r # rest)"
    and "pii_entities r = []"
  shows "pii_outcomes (display (analyze new_client ui w)) = pii_outcomes (display w) @ [NoPii]
       \<and> pii_outcomes (display (analyze new_client ui w)) \<noteq> pii_outcomes (display w) @ [Unavailable]
       \<and> filter is_fatal (display (analyze new_client ui w)) = filter is_fatal (display w)
       \<and> (\<exists>ws. display (analyze new_client ui w)
                 = display w @ ws @ [Subheader ''U+1F512 Personal Information (PII)'',
                                     Success ''U+2705 No personal information detected''])"
proof -
  let ?v = "snd (steps_1_4 client [user_text ui] blank)"
  have fr: "first_result (recognize_pii_entities client [user_text ui]) = Inr r"
    using assms(3) by (simp add: first_result_def)
  have eq: "analyze new_client ui w =
           adds w (Spinner ''Analyzing...'' # display ?v
                     @ [Subheader ''U+1F512 Personal Information (PII)'',
                        Success ''U+2705 No personal information detected''])
                  (five_calls [user_text ui])"
    using analyze_passed [of new_client ui client w] assms(1) steps_1_4_succeeds [OF assms(2)]
          pii_step_ok [OF fr, of blank] assms(4)
    by (simp add: five_calls_def adds_simps)
  have q: "quiet (display ?v)" by (rule steps_1_4_quiet)
  have c1: "pii_outcomes (display (analyze new_client ui w)) = pii_outcomes (display w) @ [NoPii]"
    using q by (simp add: eq adds_simps quiet_def pii_outcomes_simps)
  then have c2: "pii_outcomes (display (analyze new_client ui w)) \<noteq> pii_outcomes (display w) @ [Unavailable]"
    by simp
  have c3: "filter is_fatal (display (analyze new_client ui w)) = filter is_fatal (display w)"
    using q by (simp add: eq adds_simps quiet_def)
  have c4: "\<exists>ws. display (analyze new_client ui w)
                 = display w @ ws @ [Subheader ''U+1F512 Personal Information (PII)'',
                                     Success ''U+2705 No personal information detected'']"
    by (intro exI [of _ "Spinner ''Analyzing...'' # display ?v"]) (simp add: eq adds_simps)
  from c1 c2 c3 c4 show ?thesis by blast
qed

text \<open>
  The healthy service of the spec's example scenario.
\<close>

theorem empty_pii_list_is_its_own_outcome_witness:
  "always healthy (endpoint demo_ui) (api_key demo_ui) = Inr healthy
   \<and> step_failures healthy [user_text demo_ui] = replicate 4 None
   \<and> recognize_pii_entities healthy [user_text demo_ui]
       = Inr [Result \<lparr>pii_entities = [], redacted_text = Inr ''I absolutely love this product!''\<rparr>]
   \<and> pii_outcomes (display (analyze (always healthy) demo_ui blank)) = [NoPii]
   \<and> filter is_fatal (display (analyze (always healthy) demo_ui blank)) = []"
proof -
  have h1: "always healthy (endpoint demo_ui) (api_key demo_ui) = Inr healthy"
    by (simp add: always_def)
  have h2: "step_failures healthy [user_text demo_ui] = replicate 4 None"
    by (simp add: demo_defs numeral_eq_Suc)
  have h3: "recognize_pii_entities healthy [user_text demo_ui]
       = Inr [Result \<lparr>pii_entities = [], redacted_text = Inr ''I absolutely love this product!''\<rparr>]"
    by (simp add: healthy_def demo_ui_def)
  have h4: "pii_entities \<lparr>pii_entities = [], redacted_text = Inr ''I absolutely love this product!''\<rparr> = []"
    by simp
  show ?thesis
    using h1 h2 h3 h4
      empty_pii_list_is_its_own_outcome [of "always healthy" demo_ui healthy
        "\<lparr>pii_entities = [], redacted_text = Inr ''I absolutely love this product!''\<rparr>" "[]" blank]
    by (simp add: adds_simps pii_outcomes_simps)
qed

subsection \<open>C6: no request without text, endpoint and key\<close>

text \<open>
  Claim C6. When the text, the endpoint or the key is empty, the column shows its header and
  one message (a warning when only credentials are missing, an info when the text is
  missing) and issues no operation. A run that issues an operation has all three present
  and the button pressed; the spinner of the analysis is shown exactly in that case.
\<close>

theorem requesting_needs_text_and_credentials:
  "(user_text ui = [] \<or> endpoint ui = [] \<or> api_key ui = [] \<longrightarrow>
      col2 new_client ui w =
        adds w [Header ''U+1F3AF AI Analysis'',
                if user_text ui \<noteq> []
                then Warning [Lit ''U+26A0 U+FE0F Please enter Azure credentials in the sidebar'']
                else Info [Lit ''U+1F448 Enter text to analyze'']] [])
   \<and> (calls (col2 new_client ui w) \<noteq> calls w \<longrightarrow>
        user_text ui \<noteq> [] \<and> endpoint ui \<noteq> [] \<and> api_key ui \<noteq> [] \<and> analyze_clicked ui)
   \<and> (Spinner ''Analyzing...'' \<in> set (display (col2 new_client ui blank)) \<longleftrightarrow>
        user_text ui \<noteq> [] \<and> endpoint ui \<noteq> [] \<and> api_key ui \<noteq> [] \<and> analyze_clicked ui)"
proof -
  obtain ws where ws: "display (analyze new_client ui
        (adds blank [Header ''U+1F3AF AI Analysis'', Button ''U+1F680 Analyze Text''] []))
      = [Header ''U+1F3AF AI Analysis'', Button ''U+1F680 Analyze Text'', Spinner ''Analyzing...''] @ ws"
    using analyze_shows_spinner [of new_client ui
        "adds blank [Header ''U+1F3AF AI Analysis'', Button ''U+1F680 Analyze Text''] []"]
    by (auto simp: adds_simps)
  have a: "user_text ui = [] \<or> endpoint ui = [] \<or> api_key ui = [] \<longrightarrow>
      col2 new_client ui w =
        adds w [Header ''U+1F3AF AI Analysis'',
                if user_text ui \<noteq> []
                then Warning [Lit ''U+26A0 U+FE0F Please enter Azure credentials in the sidebar'']
                else Info [Lit ''U+1F448 Enter text to analyze'']] []"
    by (auto simp: col2_def Let_def adds_simps)
  have b: "calls (col2 new_client ui w) \<noteq> calls w \<longrightarrow>
        user_text ui \<noteq> [] \<and> endpoint ui \<noteq> [] \<and> api_key ui \<noteq> [] \<and> analyze_clicked ui"
    by (auto simp: col2_def Let_def adds_simps)
  have c: "Spinner ''Analyzing...'' \<in> set (display (col2 new_client ui blank)) \<longleftrightarrow>
        user_text ui \<noteq> [] \<and> endpoint ui \<noteq> [] \<and> api_key ui \<noteq> [] \<and> analyze_clicked ui"
    using ws by (auto simp: col2_def Let_def adds_simps)
  from a b c show ?thesis by blast
qed

text \<open>
  The example inputs without a key stay idle; with all three and the button they do not.
\<close>

theorem requesting_needs_text_and_credentials_witness:
  "(user_text no_key_ui = [] \<or> endpoint no_key_ui = [] \<or> api_key no_key_ui = [])
   \<and> col2 (always healthy) no_key_ui blank =
        adds blank [Header ''U+1F3AF AI Analysis'',
                    Warning [Lit ''U+26A0 U+FE0F Please enter Azure credentials in the sidebar'']] []
   \<and> calls (col2 (always healthy) no_key_ui blank) = []
   \<and> Spinner ''Analyzing...'' \<notin> set (display (col2 (always healthy) no_key_ui blank))
   \<and> user_text demo_ui \<noteq> [] \<and> endpoint demo_ui \<noteq> [] \<and> api_key demo_ui \<noteq> [] \<and> analyze_clicked demo_ui
   \<and> Spinner ''Analyzing...'' \<in> set (display (col2 (always healthy) demo_ui blank))"
proof -
  have a1: "api_key no_key_ui = []"
    by (simp add: no_key_ui_def)
  have a2: "user_text no_key_ui \<noteq> []"
    by (simp add: no_key_ui_def demo_ui_def)
  have d: "user_text demo_ui \<noteq> [] \<and> endpoint demo_ui \<noteq> [] \<and> api_key demo_ui \<noteq> [] \<and> analyze_clicked demo_ui"
    by (simp add: demo_ui_def)
  note T1 = requesting_needs_text_and_credentials [of no_key_ui "always healthy" blank]
  note T2 = requesting_needs_text_and_credentials [of demo_ui "always healthy" blank]
  have c0: "user_text no_key_ui = [] \<or> endpoint no_key_ui = [] \<or> api_key no_key_ui = []"
    using a1 by blast
  from T1 c0 have "col2 (always healthy) no_key_ui blank =
        adds blank [Header ''U+1F3AF AI Analysis'',
                if user_text no_key_ui \<noteq> []
                then Warning [Lit ''U+26A0 U+FE0F Please enter Azure credentials in the sidebar'']
                else Info [Lit ''U+1F448 Enter text to analyze'']] []"
    by blast
  with a2 have c1: "col2 (always healthy) no_key_ui blank =
        adds blank [Header ''U+1F3AF AI Analysis'',
                    Warning [Lit ''U+26A0 U+FE0F Please enter Azure credentials in the sidebar'']] []"
    by (simp only: not_False_eq_True if_True)
  have c2: "calls (col2 (always healthy) no_key_ui blank) = []"
    by (simp only: c1 calls_adds calls_blank append_Nil)
  have c3: "Spinner ''Analyzing...'' \<notin> set (display (col2 (always healthy) no_key_ui blank))"
    by (simp add: c1 display_adds display_blank)
  from T2 d have c4: "Spinner ''Analyzing...'' \<in> set (display (col2 (always healthy) demo_ui blank))"
    by blast
  from c0 c1 c2 c3 d c4 show ?thesis by blast
qed

subsection \<open>C7: the sentiment values shown are the provider's, unchecked\<close>

text \<open>
  Claim C7 says that in every successful analysis the three scores lie within \<open>[0,1]\<close> and
  the label is one of the four values. The script checks neither: for a provider that
  returns the label \<^verbatim>\<open>unknown\<close> and the scores \<open>2\<close> and \<open>-1\<close> the analysis succeeds and
  shows them.
\<close>

theorem unchecked_sentiment_counterexample:
  "step_failures odd_sentiment [user_text demo_ui] = replicate 4 None
   \<and> filter is_fatal (display (analyze (always odd_sentiment) demo_ui blank)) = []
   \<and> first_result (analyze_sentiment odd_sentiment [user_text demo_ui]) = Inr odd_result
   \<and> positive (confidence_scores odd_result) = 2
   \<and> negative (confidence_scores odd_result) = - 1
   \<and> sentiment odd_result = ''unknown''
   \<and> \<not> valid_sentiment odd_result
   \<and> Metric ''Positive'' [Pct 2] \<in> set (display (analyze (always odd_sentiment) demo_ui blank))
   \<and> Metric ''Negative'' [Pct (- 1)] \<in> set (display (analyze (always odd_sentiment) demo_ui blank))"
proof -
  have h1: "always odd_sentiment (endpoint demo_ui) (api_key demo_ui) = Inr odd_sentiment"
    by (simp add: always_def)
  note h2 = odd_steps_pass
  note h3 = odd_first_result
  have c2: "filter is_fatal (display (analyze (always odd_sentiment) demo_ui blank)) = []"
    using analyze_passed_no_fatal [of "always odd_sentiment" demo_ui odd_sentiment] h1 h2 by blast
  have c4: "positive (confidence_scores odd_result) = 2"
    and c5: "negative (confidence_scores odd_result) = - 1"
    and c6: "sentiment odd_result = ''unknown''"
    by (simp_all add: odd_result_def)
  have c7: "\<not> valid_sentiment odd_result"
    by (simp add: valid_sentiment_def c4)
  have d: "display (analyze (always odd_sentiment) demo_ui blank) =
           Spinner ''Analyzing...''
             # display (snd (sentiment_step odd_sentiment [user_text demo_ui] blank))
             @ display (snd (key_phrases_step odd_sentiment [user_text demo_ui] blank))
             @ display (snd (language_step odd_sentiment [user_text demo_ui] blank))
             @ display (snd (entities_step odd_sentiment [user_text demo_ui] blank))
             @ display (pii_step odd_sentiment [user_text demo_ui] blank)"
    using analyze_success_display [of "always odd_sentiment" demo_ui odd_sentiment blank] h1 h2
    by (simp add: display_blank)
  have c8: "Metric ''Positive'' [Pct 2] \<in> set (display (analyze (always odd_sentiment) demo_ui blank))"
    unfolding d by (simp add: sentiment_step_ok [OF h3] adds_simps c4)
  have c9: "Metric ''Negative'' [Pct (- 1)] \<in> set (display (analyze (always odd_sentiment) demo_ui blank))"
    unfolding d by (simp add: sentiment_step_ok [OF h3] adds_simps c5)
  from h2 c2 h3 c4 c5 c6 c7 c8 c9 show ?thesis by blast
qed

text \<open>
  Claim C7, amended. In every successful analysis the first widgets of the page are the
  spinner and the sentiment section, which shows the provider's label (in upper case, with
  its emoji) and the provider's three scores unchanged. So whenever the provider's result
  has its scores within \<open>[0,1]\<close> and one of the four labels, the scores shown lie within
  \<open>[0,1]\<close> and the label is one of the four.
\<close>

theorem sentiment_is_shown_as_returned:
  assumes "new_client (endpoint ui) (api_key ui) = Inr client"
    and "step_failures client [user_text ui] = replicate 4 None"
    and "first_result (analyze_sentiment client [user_text ui]) = Inr r"
  shows "take 8 (display (analyze new_client ui blank)) =
           [Spinner ''Analyzing...'',
            Subheader ''U+1F60A Sentiment Analysis'',
            Markdown [Lit (''### '' @ dict_get sentiment_emoji (sentiment r) ''U+1F610''
                            @ '' '' @ upper (sentiment r))] False,
            Columns 3,
            Metric ''Positive'' [Pct (positive (confidence_scores r))],
            Metric ''Negative'' [Pct (negative (confidence_scores r))],
            Metric ''Neutral'' [Pct (neutral (confidence_scores r))],
            Markdown [Lit ''---''] False]
       \<and> (valid_sentiment r \<longrightarrow>
            (\<forall>l x. Metric l [Pct x] \<in> set (take 8 (display (analyze new_client ui blank)))
                     \<longrightarrow> 0 \<le> x \<and> x \<le> 1)
            \<and> sentiment r \<in> set [''positive'', ''negative'', ''neutral'', ''mixed''])"
proof -
  have eq: "take 8 (display (analyze new_client ui blank)) =
           [Spinner ''Analyzing...'',
            Subheader ''U+1F60A Sentiment Analysis'',
            Markdown [Lit (''### '' @ dict_get sentiment_emoji (sentiment r) ''U+1F610''
                            @ '' '' @ upper (sentiment r))] False,
            Columns 3,
            Metric ''Positive'' [Pct (positive (confidence_scores r))],
            Metric ''Negative'' [Pct (negative (confidence_scores r))],
            Metric ''Neutral'' [Pct (neutral (confidence_scores r))],
            Markdown [Lit ''---''] False]"
    using analyze_success_display [of new_client ui client blank] assms(1,2)
          sentiment_step_ok [OF assms(3), of blank]
    by (simp add: adds_simps)
  have "valid_sentiment r \<longrightarrow>
            (\<forall>l x. Metric l [Pct x] \<in> set (take 8 (display (analyze new_client ui blank)))
                     \<longrightarrow> 0 \<le> x \<and> x \<le> 1)
            \<and> sentiment r \<in> set [''positive'', ''negative'', ''neutral'', ''mixed'']"
    unfolding eq by (auto simp: valid_sentiment_def)
  with eq show ?thesis by blast
qed

text \<open>
  The healthy service: a valid result, shown as returned.
\<close>

theorem sentiment_is_shown_as_returned_witness:
  "always healthy (endpoint demo_ui) (api_key demo_ui) = Inr healthy
   \<and> step_failures healthy [user_text demo_ui] = replicate 4 None
   \<and> first_result (analyze_sentiment healthy [user_text demo_ui])
       = Inr \<lparr>sentiment = ''positive'',
              confidence_scores = \<lparr>positive = 0.95, negative = 0.02, neutral = 0.03\<rparr>\<rparr>
   \<and> valid_sentiment \<lparr>sentiment = ''positive'',
              confidence_scores = \<lparr>positive = 0.95, negative = 0.02, neutral = 0.03\<rparr>\<rparr>
   \<and> take 8 (display (analyze (always healthy) demo_ui blank)) =
           [Spinner ''Analyzing...'',
            Subheader ''U+1F60A Sentiment Analysis'',
            Markdown [Lit ''### U+1F60A POSITIVE''] False,
            Columns 3,
            Metric ''Positive'' [Pct 0.95],
            Metric ''Negative'' [Pct 0.02],
            Metric ''Neutral'' [Pct 0.03],
            Markdown [Lit ''---''] False]"
proof -
  let ?r = "\<lparr>sentiment = ''positive'',
              confidence_scores = \<lparr>positive = 0.95, negative = 0.02, neutral = 0.03\<rparr>\<rparr>"
  have h1: "always healthy (endpoint demo_ui) (api_key demo_ui) = Inr healthy"
    by (simp add: always_def)
  have h2: "step_failures healthy [user_text demo_ui] = replicate 4 None"
    by (simp add: demo_defs numeral_eq_Suc)
  have h3: "first_result (analyze_sentiment healthy [user_text demo_ui]) = Inr ?r"
    by (simp add: healthy_def first_result_def)
  have h4: "valid_sentiment ?r"
    by (simp add: valid_sentiment_def)
  have e: "dict_get sentiment_emoji ''positive'' ''U+1F610'' = ''U+1F60A''"
    by (simp add: dict_get_def sentiment_emoji_def)
  from sentiment_is_shown_as_returned [of "always healthy" demo_ui healthy ?r] h1 h2 h3
  have "take 8 (display (analyze (always healthy) demo_ui blank)) =
           [Spinner ''Analyzing...'',
            Subheader ''U+1F60A Sentiment Analysis'',
            Markdown [Lit (''### '' @ dict_get sentiment_emoji (sentiment ?r) ''U+1F610''
                            @ '' '' @ upper (sentiment ?r))] False,
            Columns 3,
            Metric ''Positive'' [Pct (positive (confidence_scores ?r))],
            Metric ''Negative'' [Pct (negative (confidence_scores ?r))],
            Metric ''Neutral'' [Pct (neutral (confidence_scores ?r))],
            Markdown [Lit ''---''] False]"
    by blast
  then have "take 8 (display (analyze (always healthy) demo_ui blank)) =
           [Spinner ''Analyzing...'',
            Subheader ''U+1F60A Sentiment Analysis'',
            Markdown [Lit ''### U+1F60A POSITIVE''] False,
            Columns 3,
            Metric ''Positive'' [Pct 0.95],
            Metric ''Negative'' [Pct 0.02],
            Metric ''Neutral'' [Pct 0.03],
            Markdown [Lit ''---''] False]"
    by (simp add: e upper_positive)
  with h1 h2 h3 h4 show ?thesis by blast
qed

subsection \<open>C8: two cycles of one request against a deterministic service give the same report\<close>

text \<open>
  Claim C8, on the statement-level model. Let the service built for the request be
  deterministic: its answers do not depend on its hidden state. Then the page and call log
  a cycle produces are the same from any two stores (whatever values earlier cycles left
  in the variables of the script) and any two hidden states of the service; a second cycle
  run from the store and the service state the first one left, on a page reset to where
  the first started, gives the page of the first; and the cycle produces what the
  functional model \<open>analyze\<close> produces: every variable the script reads was assigned
  earlier in the same cycle.
\<close>

theorem same_request_same_report:
  assumes "\<forall>svc. new_service (endpoint ui) (api_key ui) = Inr svc \<longrightarrow> deterministic svc"
  shows "page (run_cycle new_service ui \<lparr>vars = s1, hidden = r1, page = w\<rparr>)
           = page (run_cycle new_service ui \<lparr>vars = s2, hidden = r2, page = w\<rparr>)
       \<and> page (run_cycle new_service ui ((run_cycle new_service ui c)\<lparr>page := page c\<rparr>))
           = page (run_cycle new_service ui c)
       \<and> page (run_cycle new_service ui c)
           = analyze (answering_at new_service (hidden c)) ui (page c)"
proof -
  note r = cycle_refines_analyze [where new_service = new_service and ui = ui, OF assms]
  have a: "page (run_cycle new_service ui \<lparr>vars = s1, hidden = r1, page = w\<rparr>)
           = page (run_cycle new_service ui \<lparr>vars = s2, hidden = r2, page = w\<rparr>)"
    using r [where c = "\<lparr>vars = s1, hidden = r1, page = w\<rparr>" and r = r1]
          r [where c = "\<lparr>vars = s2, hidden = r2, page = w\<rparr>" and r = r1]
    by simp
  have b: "page (run_cycle new_service ui ((run_cycle new_service ui c)\<lparr>page := page c\<rparr>))
           = page (run_cycle new_service ui c)"
    using r [where c = "(run_cycle new_service ui c)\<lparr>page := page c\<rparr>" and r = "hidden c"]
          r [where c = c and r = "hidden c"]
    by simp
  have c: "page (run_cycle new_service ui c)
           = analyze (answering_at new_service (hidden c)) ui (page c)"
    by (rule r)
  from a b c show ?thesis by blast
qed

text \<open>
  A service that counts its requests and always answers as the healthy one: a cycle from
  the empty store and one from a store full of earlier values give the same page.
\<close>

theorem same_request_same_report_witness:
  "always_service (steady healthy) (endpoint demo_ui) (api_key demo_ui) = Inr (steady healthy)
   \<and> deterministic (steady healthy)
   \<and> v_entity_data stale_store = Some [[(''Entity'', [Lit ''an earlier entity''])]]
   \<and> page (run_cycle (always_service (steady healthy)) demo_ui
            \<lparr>vars = empty_store, hidden = 0, page = blank\<rparr>)
       = page (run_cycle (always_service (steady healthy)) demo_ui
            \<lparr>vars = stale_store, hidden = 7, page = blank\<rparr>)
   \<and> page (run_cycle (always_service (steady healthy)) demo_ui
            \<lparr>vars = stale_store, hidden = 7, page = blank\<rparr>)
       = analyze (always healthy) demo_ui blank"
proof -
  have h: "\<forall>svc. always_service (steady healthy) (endpoint demo_ui) (api_key demo_ui) = Inr svc
          \<longrightarrow> deterministic svc"
    by (simp add: always_service_def deterministic_steady)
  have s: "v_entity_data stale_store = Some [[(''Entity'', [Lit ''an earlier entity''])]]"
    by (simp add: stale_store_def)
  note T = same_request_same_report [where new_service = "always_service (steady healthy)"
      and ui = demo_ui, OF h]
  from T [where ?s1.0 = empty_store and ?r1.0 = 0 and w = blank and ?s2.0 = stale_store and ?r2.0 = 7]
  have a: "page (run_cycle (always_service (steady healthy)) demo_ui
            \<lparr>vars = empty_store, hidden = 0, page = blank\<rparr>)
       = page (run_cycle (always_service (steady healthy)) demo_ui
            \<lparr>vars = stale_store, hidden = 7, page = blank\<rparr>)"
    by blast
  from T [where c = "\<lparr>vars = stale_store, hidden = 7, page = blank\<rparr>"]
  have b: "page (run_cycle (always_service (steady healthy)) demo_ui
            \<lparr>vars = stale_store, hidden = 7, page = blank\<rparr>)
       = analyze (always healthy) demo_ui blank"
    by (simp add: answering_at_steady)
  have h1: "always_service (steady healthy) (endpoint demo_ui) (api_key demo_ui) = Inr (steady healthy)"
    by (simp add: always_service_def)
  have h2: "deterministic (steady healthy)"
    by (rule deterministic_steady)
  from h1 h2 s a b show ?thesis by blast
qed

subsection \<open>C9: a label outside the four values gets the default emoji\<close>

text \<open>
  Claim C9 says that a label outside the four values is displayed as returned. The script
  displays \<^verbatim>\<open>sentiment.upper()\<close>: the label \<^verbatim>\<open>unknown\<close> is shown as \<^verbatim>\<open>UNKNOWN\<close>.
\<close>

theorem label_not_as_returned_counterexample:
  "first_result (analyze_sentiment odd_sentiment [user_text demo_ui]) = Inr odd_result
   \<and> sentiment odd_result = ''unknown''
   \<and> fst (sentiment_step odd_sentiment [user_text demo_ui] blank) = None
   \<and> display (snd (sentiment_step odd_sentiment [user_text demo_ui] blank)) ! 1
       = Markdown [Lit ''### U+1F610 UNKNOWN''] False
   \<and> Markdown [Lit ''### U+1F610 unknown''] False
       \<notin> set (display (snd (sentiment_step odd_sentiment [user_text demo_ui] blank)))"
proof -
  have s: "sentiment odd_result = ''unknown''"
    by (simp add: odd_result_def)
  have e: "dict_get sentiment_emoji ''unknown'' ''U+1F610'' = ''U+1F610''"
    by (simp add: dict_get_def sentiment_emoji_def)
  have eq: "sentiment_step odd_sentiment [user_text demo_ui] blank =
     (None, adds blank
        [Subheader ''U+1F60A Sentiment Analysis'',
         Markdown [Lit ''### U+1F610 UNKNOWN''] False,
         Columns 3,
         Metric ''Positive'' [Pct (positive (confidence_scores odd_result))],
         Metric ''Negative'' [Pct (negative (confidence_scores odd_result))],
         Metric ''Neutral'' [Pct (neutral (confidence_scores odd_result))],
         Markdown [Lit ''---''] False]
        [AnalyzeSentiment [user_text demo_ui]])"
    using sentiment_step_ok [OF odd_first_result, of blank] by (simp add: s e upper_unknown)
  have c3: "fst (sentiment_step odd_sentiment [user_text demo_ui] blank) = None"
    by (simp add: eq)
  have c4: "display (snd (sentiment_step odd_sentiment [user_text demo_ui] blank)) ! 1
       = Markdown [Lit ''### U+1F610 UNKNOWN''] False"
    by (simp add: eq adds_simps)
  have c5: "Markdown [Lit ''### U+1F610 unknown''] False
       \<notin> set (display (snd (sentiment_step odd_sentiment [user_text demo_ui] blank)))"
    by (simp add: eq adds_simps)
  from odd_first_result s c3 c4 c5 show ?thesis by blast
qed

text \<open>
  Claim C9, amended. When the provider's label is none of the four values, the sentiment
  step runs to its end without an exception: the lookup in the emoji table gives the default
  neutral emoji (for every label it gives an emoji of the table), and the label is shown
  in upper case behind it, followed by the three scores.
\<close>

theorem unknown_label_gets_default_emoji:
  assumes "first_result (analyze_sentiment client d) = Inr r"
    and "sentiment r \<notin> set [''positive'', ''negative'', ''neutral'', ''mixed'']"
  shows "dict_get sentiment_emoji (sentiment r) ''U+1F610'' = ''U+1F610''
       \<and> dict_get sentiment_emoji label ''U+1F610'' \<in> set (map snd sentiment_emoji)
       \<and> sentiment_step client d w =
           (None, adds w
              [Subheader ''U+1F60A Sentiment Analysis'',
               Markdown [Lit (''### U+1F610 '' @ upper (sentiment r))] False,
               Columns 3,
               Metric ''Positive'' [Pct (positive (confidence_scores r))],
               Metric ''Negative'' [Pct (negative (confidence_scores r))],
               Metric ''Neutral'' [Pct (neutral (confidence_scores r))],
               Markdown [Lit ''---''] False]
              [AnalyzeSentiment d])"
proof -
  have a: "dict_get sentiment_emoji (sentiment r) ''U+1F610'' = ''U+1F610''"
    using assms(2) by (simp add: dict_get_def sentiment_emoji_def)
  have b: "dict_get sentiment_emoji label ''U+1F610'' \<in> set (map snd sentiment_emoji)"
    by (simp add: dict_get_def sentiment_emoji_def)
  have c: "sentiment_step client d w =
           (None, adds w
              [Subheader ''U+1F60A Sentiment Analysis'',
               Markdown [Lit (''### U+1F610 '' @ upper (sentiment r))] False,
               Columns 3,
               Metric ''Positive'' [Pct (positive (confidence_scores r))],
               Metric ''Negative'' [Pct (negative (confidence_scores r))],
               Metric ''Neutral'' [Pct (neutral (confidence_scores r))],
               Markdown [Lit ''---''] False]
              [AnalyzeSentiment d])"
    using sentiment_step_ok [OF assms(1), of w] by (simp add: a)
  from a b c show ?thesis by blast
qed

text \<open>
  The service that returns the label \<^verbatim>\<open>unknown\<close>.
\<close>

theorem unknown_label_gets_default_emoji_witness:
  "first_result (analyze_sentiment odd_sentiment [user_text demo_ui]) = Inr odd_result
   \<and> sentiment odd_result \<notin> set [''positive'', ''negative'', ''neutral'', ''mixed'']
   \<and> sentiment_step odd_sentiment [user_text demo_ui] blank =
           (None, adds blank
              [Subheader ''U+1F60A Sentiment Analysis'',
               Markdown [Lit ''### U+1F610 UNKNOWN''] False,
               Columns 3,
               Metric ''Positive'' [Pct 2],
               Metric ''Negative'' [Pct (- 1)],
               Metric ''Neutral'' [Pct 0.5],
               Markdown [Lit ''---''] False]
              [AnalyzeSentiment [''I absolutely love this product!'']])"
proof -
  have h2: "sentiment odd_result \<notin> set [''positive'', ''negative'', ''neutral'', ''mixed'']"
    by (simp add: odd_result_def)
  have u: "user_text demo_ui = ''I absolutely love this product!''"
    by (simp add: demo_ui_def)
  have v: "upper (sentiment odd_result) = ''UNKNOWN''"
    "positive (confidence_scores odd_result) = 2"
    "negative (confidence_scores odd_result) = - 1"
    "neutral (confidence_scores odd_result) = 0.5"
    by (simp_all add: odd_result_def upper_unknown)
  from unknown_label_gets_default_emoji [where client = odd_sentiment and d = "[user_text demo_ui]"
      and r = odd_result and w = blank]
    odd_first_result h2
  have "sentiment_step odd_sentiment [user_text demo_ui] blank =
           (None, adds blank
              [Subheader ''U+1F60A Sentiment Analysis'',
               Markdown [Lit (''### U+1F610 '' @ upper (sentiment odd_result))] False,
               Columns 3,
               Metric ''Positive'' [Pct (positive (confidence_scores odd_result))],
               Metric ''Negative'' [Pct (negative (confidence_scores odd_result))],
               Metric ''Neutral'' [Pct (neutral (confidence_scores odd_result))],
               Markdown [Lit ''---''] False]
              [AnalyzeSentiment [user_text demo_ui]])"
    by blast
  then have "sentiment_step odd_sentiment [user_text demo_ui] blank =
           (None, adds blank
              [Subheader ''U+1F60A Sentiment Analysis'',
               Markdown [Lit ''### U+1F610 UNKNOWN''] False,
               Columns 3,
               Metric ''Positive'' [Pct 2],
               Metric ''Negative'' [Pct (- 1)],
               Metric ''Neutral'' [Pct 0.5],
               Markdown [Lit ''---''] False]
              [AnalyzeSentiment [''I absolutely love this product!'']])"
    by (simp add: v u)
  with odd_first_result h2 show ?thesis by blast
qed

subsection \<open>C10: the bare handler of the PII step also catches what reading the response raises\<close>

text \<open>
  Claim C10. The handler of the PII step surrounds the remote call and everything done
  with its response. When steps 1 to 4 succeed, the remote PII call returns (it does not
  raise) and an exception is raised inside the inner \<^verbatim>\<open>try\<close>, the cycle still issues all five
  operations and shows no fatal error, and the page ends with the message that PII
  detection is not available: the last outcome shown is \<open>Unavailable\<close>. When the response
  was a result, it had detected entities: the page shows the warning with their number
  and then reports the detection as not available.
\<close>

theorem pii_handler_masks_processing_errors:
  assumes "new_client (endpoint ui) (api_key ui) = Inr client"
    and "step_failures client [user_text ui] = replicate 4 None"
    and "recognize_pii_entities client [user_text ui] = Inr docs"
    and "fst (pii_try client [user_text ui] blank) = Some e"
  shows "calls (analyze new_client ui w) = calls w @ five_calls [user_text ui]
       \<and> filter is_fatal (display (analyze new_client ui w)) = filter is_fatal (display w)
       \<and> last (display (analyze new_client ui w))
           = Info [Lit ''PII detection not available for this language'']
       \<and> last (pii_outcomes (display (analyze new_client ui w))) = Unavailable
       \<and> (\<forall>r rest. docs = Result r # rest \<longrightarrow>
             pii_entities r \<noteq> []
             \<and> pii_outcomes (display (analyze new_client ui w))
                 = pii_outcomes (display w) @ [Detected (length (pii_entities r)), Unavailable])"
proof -
  let ?d = "[user_text ui]"
  let ?v = "snd (steps_1_4 client ?d blank)"
  let ?p = "display (pii_step client ?d blank)"
  have eq: "analyze new_client ui w =
           adds w (Spinner ''Analyzing...'' # display ?v @ ?p) (five_calls ?d)"
    using analyze_passed [of new_client ui client w] assms(1) steps_1_4_succeeds [OF assms(2)]
          pii_step_calls [of client ?d]
    by (simp add: five_calls_def)
  have q: "quiet (display ?v)" by (rule steps_1_4_quiet)
  have p: "last ?p = Info [Lit ''PII detection not available for this language'']
      \<and> ?p \<noteq> []
      \<and> last (pii_outcomes ?p) = Unavailable \<and> pii_outcomes ?p \<noteq> []
      \<and> (\<forall>r rest. docs = Result r # rest \<longrightarrow>
             pii_entities r \<noteq> []
             \<and> pii_outcomes ?p = [Detected (length (pii_entities r)), Unavailable])"
  proof (cases "first_result (recognize_pii_entities client ?d)")
    case (Inl x)
    then have "?p = [Subheader ''U+1F512 Personal Information (PII)'',
                     Info [Lit ''PII detection not available for this language'']]"
      by (simp add: pii_step_fail adds_simps)
    moreover from Inl assms(3) have "\<forall>r rest. docs \<noteq> Result r # rest"
      by (auto simp: first_result_def)
    ultimately show ?thesis by (simp add: pii_outcomes_simps)
  next
    case (Inr r)
    note m = pii_step_masked [OF Inr assms(4)]
    from Inr assms(3) have "\<forall>r' rest. docs = Result r' # rest \<longrightarrow> r' = r"
      by (auto simp: first_result_def)
    moreover have "?p \<noteq> []"
      by (simp add: pii_step_ok [OF Inr] adds_simps)
    ultimately show ?thesis using m by auto
  qed
  have c1: "calls (analyze new_client ui w) = calls w @ five_calls ?d"
    by (simp add: eq adds_simps)
  have c2: "filter is_fatal (display (analyze new_client ui w)) = filter is_fatal (display w)"
    using q pii_step_quiet_fatal [of client ?d] by (simp add: eq adds_simps quiet_def)
  have c3: "last (display (analyze new_client ui w))
           = Info [Lit ''PII detection not available for this language'']"
    using p by (simp add: eq adds_simps)
  have o: "pii_outcomes (display (analyze new_client ui w)) = pii_outcomes (display w) @ pii_outcomes ?p"
    using q by (simp add: eq adds_simps quiet_def pii_outcomes_simps)
  have c4: "last (pii_outcomes (display (analyze new_client ui w))) = Unavailable"
    using p by (simp add: o)
  have c5: "\<forall>r rest. docs = Result r # rest \<longrightarrow>
             pii_entities r \<noteq> []
             \<and> pii_outcomes (display (analyze new_client ui w))
                 = pii_outcomes (display w) @ [Detected (length (pii_entities r)), Unavailable]"
    using p by (simp add: o)
  from c1 c2 c3 c4 c5 show ?thesis by blast
qed

text \<open>
  A service that detects two entities, the second of which cannot be read: the page shows
  the warning for two entities followed by the message that detection is not available.
\<close>

theorem pii_handler_masks_processing_errors_witness:
  "always pii_masked (endpoint demo_ui) (api_key demo_ui) = Inr pii_masked
   \<and> step_failures pii_masked [user_text demo_ui] = replicate 4 None
   \<and> recognize_pii_entities pii_masked [user_text demo_ui] = Inr [Result masked_result]
   \<and> fst (pii_try pii_masked [user_text demo_ui] blank) = Some (OtherError ''no attribute category'')
   \<and> length (pii_entities masked_result) = 2
   \<and> calls (analyze (always pii_masked) demo_ui blank) = five_calls [''I absolutely love this product!'']
   \<and> filter is_fatal (display (analyze (always pii_masked) demo_ui blank)) = []
   \<and> last (display (analyze (always pii_masked) demo_ui blank))
       = Info [Lit ''PII detection not available for this language'']
   \<and> pii_outcomes (display (analyze (always pii_masked) demo_ui blank)) = [Detected 2, Unavailable]"
proof -
  have h1: "always pii_masked (endpoint demo_ui) (api_key demo_ui) = Inr pii_masked"
    by (simp add: always_def)
  have h2: "step_failures pii_masked [user_text demo_ui] = replicate 4 None"
    by (simp add: demo_defs pii_masked_def numeral_eq_Suc)
  have h3: "recognize_pii_entities pii_masked [user_text demo_ui] = Inr [Result masked_result]"
    by (simp add: pii_masked_def)
  have h4: "fst (pii_try pii_masked [user_text demo_ui] blank) = Some (OtherError ''no attribute category'')"
    by (simp add: pii_try_def pii_masked_def first_result_def masked_result_def Let_def)
  have l: "length (pii_entities masked_result) = 2"
    by (simp add: masked_result_def)
  have u: "user_text demo_ui = ''I absolutely love this product!''"
    by (simp add: demo_ui_def)
  note T = pii_handler_masks_processing_errors [of "always pii_masked" demo_ui pii_masked
        "[Result masked_result]" "OtherError ''no attribute category''" blank, OF h1 h2 h3 h4]
  from T have c1: "calls (analyze (always pii_masked) demo_ui blank)
      = five_calls [''I absolutely love this product!'']"
    by (simp add: calls_blank u)
  from T have c2: "filter is_fatal (display (analyze (always pii_masked) demo_ui blank)) = []"
    by (simp add: display_blank)
  from T have c3: "last (display (analyze (always pii_masked) demo_ui blank))
       = Info [Lit ''PII detection not available for this language'']"
    by blast
  from T have "pii_outcomes (display (analyze (always pii_masked) demo_ui blank))
       = pii_outcomes (display blank) @ [Detected (length (pii_entities masked_result)), Unavailable]"
    by blast
  then have c4: "pii_outcomes (display (analyze (always pii_masked) demo_ui blank))
       = [Detected 2, Unavailable]"
    by (simp add: display_blank pii_outcomes_Nil l)
  from h1 h2 h3 h4 l c1 c2 c3 c4 show ?thesis by blast
qed

end
